theory Spec2Isabelle
  imports Main "HOL-Library.Char_ord" "HOL-Library.List_Lexorder"
begin

section \<open>JavaScript values\<close>

text \<open>
  The module \<^verbatim>\<open>src/supabase-client.js\<close> passes untyped values between the
  platform's client library and its callers. The values are modelled by one datatype.
  An object is an association list from property names to values (the first binding of
  a name is the one that is read); an \<^verbatim>\<open>Error\<close> instance keeps its name and its message.
  Numbers are only tested for truthiness, so integers stand for them.
\<close>

datatype jsval =
    JUndefined
  | JNull
  | JBool bool
  | JNum int
  | JStr string
  | JObj "(string \<times> jsval) list"
  | JArr "jsval list"
  | JError string string

text \<open>The conversion to a boolean that \<^verbatim>\<open>if (error)\<close> and \<^verbatim>\<open>!userData.user\<close> apply.\<close>

fun truthy :: "jsval \<Rightarrow> bool" where
  "truthy JUndefined = False"
| "truthy JNull = False"
| "truthy (JBool b) = b"
| "truthy (JNum n) = (n \<noteq> 0)"
| "truthy (JStr s) = (s \<noteq> [])"
| "truthy (JObj kvs) = True"
| "truthy (JArr vs) = True"
| "truthy (JError n m) = True"

text \<open>
  Reading a property of \<^verbatim>\<open>null\<close> or \<^verbatim>\<open>undefined\<close> throws a \<^verbatim>\<open>TypeError\<close>;
  the thrown value is the left summand. The message is the one of V8.
\<close>

definition type_error :: "jsval \<Rightarrow> string \<Rightarrow> jsval" where
  "type_error v k =
     JError ''TypeError''
       (''Cannot read properties of '' @ (if v = JNull then ''null'' else ''undefined'')
          @ '' (reading '' @ [CHR 0x27] @ k @ [CHR 0x27] @ '')'')"

text \<open>
  Property access \<^verbatim>\<open>v.k\<close>. The module reads the properties \<^verbatim>\<open>data\<close>, \<^verbatim>\<open>error\<close>,
  \<^verbatim>\<open>user\<close>, \<^verbatim>\<open>id\<close>, \<^verbatim>\<open>role\<close> and \<^verbatim>\<open>code\<close> only, none of which a boolean, a number,
  a string or an array has: there the access yields \<^verbatim>\<open>undefined\<close>.
\<close>

fun get_prop :: "jsval \<Rightarrow> string \<Rightarrow> jsval + jsval" where
  "get_prop JUndefined k = Inl (type_error JUndefined k)"
| "get_prop JNull k = Inl (type_error JNull k)"
| "get_prop (JObj kvs) k = Inr (case map_of kvs k of Some v \<Rightarrow> v | None \<Rightarrow> JUndefined)"
| "get_prop (JError n m) k =
     Inr (if k = ''name'' then JStr n else if k = ''message'' then JStr m else JUndefined)"
| "get_prop (JBool b) k = Inr JUndefined"
| "get_prop (JNum n) k = Inr JUndefined"
| "get_prop (JStr s) k = Inr JUndefined"
| "get_prop (JArr vs) k = Inr JUndefined"

text \<open>Sequencing of steps that may throw: the first thrown value ends the \<^verbatim>\<open>try\<close> block.\<close>

definition and_then :: "jsval + 'a \<Rightarrow> ('a \<Rightarrow> jsval + 'b) \<Rightarrow> jsval + 'b" where
  "and_then r f = (case r of Inl e \<Rightarrow> Inl e | Inr v \<Rightarrow> f v)"

section \<open>The remote platform as the module sees it\<close>

text \<open>
  A call of the client library returns a promise; \<^verbatim>\<open>await\<close> yields the value it
  resolves to, or throws the value it rejects with. A promise that never settles is
  outside this model.
\<close>

datatype remote_result = Resolved jsval | Rejected jsval

fun awaited :: "remote_result \<Rightarrow> jsval + jsval" where
  "awaited (Resolved v) = Inr v"
| "awaited (Rejected e) = Inl e"

text \<open>The record \<^verbatim>\<open>{ data, error }\<close> with which the client library answers a call.\<close>

definition response :: "jsval \<Rightarrow> jsval \<Rightarrow> jsval" where
  "response d e = JObj [(''data'', d), (''error'', e)]"

text \<open>
  A database request as the query builder chain assembles it:
  \<^verbatim>\<open>supabase.from(t)\<close> with its verb (\<^verbatim>\<open>select\<close>, \<^verbatim>\<open>upsert\<close> or \<^verbatim>\<open>update\<close>),
  followed by the modifiers \<^verbatim>\<open>eq\<close>, \<^verbatim>\<open>order\<close>, \<^verbatim>\<open>limit\<close> and \<^verbatim>\<open>single\<close>. The arguments
  of \<^verbatim>\<open>upsert\<close> are the row, \<^verbatim>\<open>onConflict\<close> and \<^verbatim>\<open>ignoreDuplicates\<close>.
\<close>

datatype action =
    Select string
  | Upsert jsval string bool
  | Update jsval

record query =
  q_table :: string
  q_action :: action
  q_filters :: "(string \<times> jsval) list"
  q_order :: "(string \<times> bool) option"
  q_limit :: "nat option"
  q_single :: bool

definition from_table :: "string \<Rightarrow> action \<Rightarrow> query" where
  "from_table t a =
     \<lparr>q_table = t, q_action = a, q_filters = [], q_order = None, q_limit = None,
      q_single = False\<rparr>"

definition eq_filter :: "string \<Rightarrow> jsval \<Rightarrow> query \<Rightarrow> query" where
  "eq_filter c v q = q\<lparr>q_filters := q_filters q @ [(c, v)]\<rparr>"

definition order_by :: "string \<Rightarrow> bool \<Rightarrow> query \<Rightarrow> query" where
  "order_by c ascending q = q\<lparr>q_order := Some (c, ascending)\<rparr>"

definition limit_rows :: "nat \<Rightarrow> query \<Rightarrow> query" where
  "limit_rows n q = q\<lparr>q_limit := Some n\<rparr>"

definition single_row :: "query \<Rightarrow> query" where
  "single_row q = q\<lparr>q_single := True\<rparr>"

text \<open>The requests the module sends: the six calls of \<^verbatim>\<open>supabase.auth\<close> and the queries.\<close>

datatype request =
    SignUp string string jsval
  | SignInWithPassword string string
  | SignOut
  | GetSession
  | GetUser
  | ResetPasswordForEmail string string
  | From query

text \<open>
  The platform is a parameter of every operation: a function that answers a request in
  a platform state and yields the next state. The module's world is the platform state
  and the list of the requests sent so far, oldest first.
\<close>

type_synonym 'st remote = "request \<Rightarrow> 'st \<Rightarrow> remote_result \<times> 'st"

type_synonym 'st world = "'st \<times> request list"

definition call :: "'st remote \<Rightarrow> request \<Rightarrow> 'st world \<Rightarrow> (jsval + jsval) \<times> 'st world" where
  "call srv req w =
     (case srv req (fst w) of (r, s') \<Rightarrow> (awaited r, (s', snd w @ [req])))"

section \<open>The outcome record and the shared error handling\<close>

text \<open>
  An operation is an \<^verbatim>\<open>async\<close> function: it completes by returning a value or by
  throwing one.
\<close>

datatype completion = Returned jsval | Thrown jsval

fun await_completion :: "completion \<Rightarrow> jsval + jsval" where
  "await_completion (Returned v) = Inr v"
| "await_completion (Thrown e) = Inl e"

definition outcome :: "jsval \<Rightarrow> jsval \<Rightarrow> jsval" where
  "outcome d e = JObj [(''data'', d), (''error'', e)]"

text \<open>Reading a field of a returned record; a field the record lacks reads as \<^verbatim>\<open>undefined\<close>.\<close>

fun field :: "jsval \<Rightarrow> string \<Rightarrow> jsval" where
  "field (JObj kvs) k = (case map_of kvs k of Some v \<Rightarrow> v | None \<Rightarrow> JUndefined)"
| "field v k = JUndefined"

definition non_null :: "jsval \<Rightarrow> bool" where
  "non_null v = (v \<noteq> JNull \<and> v \<noteq> JUndefined)"

text \<open>
  \<^verbatim>\<open>const { data, error } = r; if (error) throw error; return { data, error: null }\<close>
\<close>

definition data_or_throw :: "jsval \<Rightarrow> jsval + jsval" where
  "data_or_throw r =
     and_then (get_prop r ''data'') (\<lambda>d.
     and_then (get_prop r ''error'') (\<lambda>e.
       if truthy e then Inl e else Inr (outcome d JNull)))"

text \<open>
  \<^verbatim>\<open>catch (error) { console.error(...); return { data: null, error } }\<close>
  around a \<^verbatim>\<open>try\<close> block. The line written to the console is not modelled.
\<close>

definition catch_all :: "jsval + jsval \<Rightarrow> completion" where
  "catch_all body = (case body of Inr v \<Rightarrow> Returned v | Inl e \<Rightarrow> Returned (outcome JNull e))"

section \<open>authAPI\<close>

definition signUp ::
  "'st remote \<Rightarrow> string \<Rightarrow> string \<Rightarrow> jsval \<Rightarrow> 'st world \<Rightarrow> completion \<times> 'st world" where
  "signUp srv email password userMetadata w =
     (case call srv
             (SignUp email password (if userMetadata = JUndefined then JObj [] else userMetadata)) w
      of (r, w') \<Rightarrow> (catch_all (and_then r data_or_throw), w'))"

definition signIn ::
  "'st remote \<Rightarrow> string \<Rightarrow> string \<Rightarrow> 'st world \<Rightarrow> completion \<times> 'st world" where
  "signIn srv email password w =
     (case call srv (SignInWithPassword email password) w
      of (r, w') \<Rightarrow> (catch_all (and_then r data_or_throw), w'))"

text \<open>\<^verbatim>\<open>signOut\<close> returns a record with the single field \<^verbatim>\<open>error\<close>.\<close>

definition signOut :: "'st remote \<Rightarrow> 'st world \<Rightarrow> completion \<times> 'st world" where
  "signOut srv w =
     (case call srv SignOut w of (r, w') \<Rightarrow>
        ((case and_then r (\<lambda>v. and_then (get_prop v ''error'') (\<lambda>e.
                 if truthy e then Inl e else Inr (JObj [(''error'', JNull)])))
          of Inr v \<Rightarrow> Returned v
           | Inl e \<Rightarrow> Returned (JObj [(''error'', e)])), w'))"

definition getSession :: "'st remote \<Rightarrow> 'st world \<Rightarrow> completion \<times> 'st world" where
  "getSession srv w =
     (case call srv GetSession w of (r, w') \<Rightarrow> (catch_all (and_then r data_or_throw), w'))"

definition getUser :: "'st remote \<Rightarrow> 'st world \<Rightarrow> completion \<times> 'st world" where
  "getUser srv w =
     (case call srv GetUser w of (r, w') \<Rightarrow> (catch_all (and_then r data_or_throw), w'))"

text \<open>
  \<^verbatim>\<open>resetPassword\<close> builds the redirect target from \<^verbatim>\<open>window.location.origin\<close> before
  it calls the platform. Outside a browser there is no \<^verbatim>\<open>window\<close> (\<open>origin = None\<close>):
  the reference throws inside the \<^verbatim>\<open>try\<close> block and no request is sent.
\<close>

definition resetPassword ::
  "'st remote \<Rightarrow> string option \<Rightarrow> string \<Rightarrow> 'st world \<Rightarrow> completion \<times> 'st world" where
  "resetPassword srv origin email w =
     (case origin of
        None \<Rightarrow> (catch_all (Inl (JError ''ReferenceError'' ''window is not defined'')), w)
      | Some b \<Rightarrow>
          (case call srv (ResetPasswordForEmail email (b @ ''/update-password'')) w
           of (r, w') \<Rightarrow> (catch_all (and_then r data_or_throw), w')))"

section \<open>contentAPI\<close>

text \<open>
  \<^verbatim>\<open>const { data: userData } = await authAPI.getUser()\<close>
  \<^verbatim>\<open>if (!userData.user) throw new Error(msg)\<close>
  The value is \<^verbatim>\<open>userData.user\<close>.
\<close>

definition authenticated_user :: "string \<Rightarrow> completion \<Rightarrow> jsval + jsval" where
  "authenticated_user msg c =
     and_then (await_completion c) (\<lambda>res.
     and_then (get_prop res ''data'') (\<lambda>userData.
     and_then (get_prop userData ''user'') (\<lambda>user.
       if \<not> truthy user then Inl (JError ''Error'' msg) else Inr user)))"

text \<open>\<open>now\<close> is the text \<^verbatim>\<open>new Date().toISOString()\<close> yields when the row is built.\<close>

definition save_request :: "string \<Rightarrow> string \<Rightarrow> jsval \<Rightarrow> string \<Rightarrow> request" where
  "save_request pageName content uid now =
     From (from_table ''paginas''
       (Upsert (JObj [(''nombre'', JStr pageName), (''contenido_html'', JStr content),
                      (''usuario_id'', uid), (''actualizado_en'', JStr now)])
               ''nombre'' False))"

definition savePageContent ::
  "'st remote \<Rightarrow> string \<Rightarrow> string \<Rightarrow> string \<Rightarrow> 'st world \<Rightarrow> completion \<times> 'st world" where
  "savePageContent srv pageName content now w =
     (case getUser srv w of (c, w1) \<Rightarrow>
        (case and_then (authenticated_user ''Usuario no autenticado'' c)
                (\<lambda>user. get_prop user ''id'')
         of Inl e \<Rightarrow> (catch_all (Inl e), w1)
          | Inr uid \<Rightarrow>
              (case call srv (save_request pageName content uid now) w1
               of (r, w2) \<Rightarrow> (catch_all (and_then r data_or_throw), w2))))"

definition load_request :: "string \<Rightarrow> request" where
  "load_request pageName =
     From (single_row (eq_filter ''nombre'' (JStr pageName)
       (from_table ''paginas'' (Select ''contenido_html, actualizado_en''))))"

text \<open>\<^verbatim>\<open>if (error && error.code !== 'PGRST116') throw error\<close>\<close>

definition loadPageContent ::
  "'st remote \<Rightarrow> string \<Rightarrow> 'st world \<Rightarrow> completion \<times> 'st world" where
  "loadPageContent srv pageName w =
     (case call srv (load_request pageName) w of (r, w') \<Rightarrow>
        (catch_all
           (and_then r (\<lambda>v.
            and_then (get_prop v ''data'') (\<lambda>d.
            and_then (get_prop v ''error'') (\<lambda>e.
              if truthy e
              then and_then (get_prop e ''code'') (\<lambda>code.
                     if code \<noteq> JStr ''PGRST116'' then Inl e else Inr (outcome d JNull))
              else Inr (outcome d JNull))))), w'))"

definition history_request :: "string \<Rightarrow> request" where
  "history_request pageName =
     From (limit_rows 10 (order_by ''actualizado_en'' False
       (eq_filter ''nombre_pagina'' (JStr pageName)
         (from_table ''pagina_historial''
            (Select ''contenido_html, actualizado_en, usuario_id'')))))"

definition getPageHistory ::
  "'st remote \<Rightarrow> string \<Rightarrow> 'st world \<Rightarrow> completion \<times> 'st world" where
  "getPageHistory srv pageName w =
     (case call srv (history_request pageName) w
      of (r, w') \<Rightarrow> (catch_all (and_then r data_or_throw), w'))"

section \<open>adminAPI\<close>

definition role_request :: "jsval \<Rightarrow> request" where
  "role_request uid =
     From (single_row (eq_filter ''id'' uid (from_table ''profiles'' (Select ''role''))))"

text \<open>
  The block both admin operations start with: the caller's identity, the lookup of the
  caller's profile, and \<^verbatim>\<open>if (profile.role !== 'admin') throw new Error('No autorizado')\<close>.
  The \<^verbatim>\<open>error\<close> field of the lookup's answer is not read.
\<close>

definition verify_admin :: "'st remote \<Rightarrow> 'st world \<Rightarrow> (jsval + unit) \<times> 'st world" where
  "verify_admin srv w =
     (case getUser srv w of (c, w1) \<Rightarrow>
        (case and_then (authenticated_user ''No autenticado'' c) (\<lambda>user. get_prop user ''id'')
         of Inl e \<Rightarrow> (Inl e, w1)
          | Inr uid \<Rightarrow>
              (case call srv (role_request uid) w1 of (r, w2) \<Rightarrow>
                 (and_then r (\<lambda>v.
                  and_then (get_prop v ''data'') (\<lambda>profile.
                  and_then (get_prop profile ''role'') (\<lambda>role.
                    if role \<noteq> JStr ''admin'' then Inl (JError ''Error'' ''No autorizado'')
                    else Inr ()))), w2))))"

definition users_request :: request where
  "users_request =
     From (order_by ''created_at'' False
       (from_table ''profiles'' (Select ''id, email, role, created_at'')))"

definition getUsers :: "'st remote \<Rightarrow> 'st world \<Rightarrow> completion \<times> 'st world" where
  "getUsers srv w =
     (case verify_admin srv w of (chk, w2) \<Rightarrow>
        (case chk of
           Inl e \<Rightarrow> (catch_all (Inl e), w2)
         | Inr u \<Rightarrow>
             (case call srv users_request w2
              of (r, w3) \<Rightarrow> (catch_all (and_then r data_or_throw), w3))))"

definition role_update_request :: "string \<Rightarrow> string \<Rightarrow> request" where
  "role_update_request userId newRole =
     From (eq_filter ''id'' (JStr userId)
       (from_table ''profiles'' (Update (JObj [(''role'', JStr newRole)]))))"

definition updateUserRole ::
  "'st remote \<Rightarrow> string \<Rightarrow> string \<Rightarrow> 'st world \<Rightarrow> completion \<times> 'st world" where
  "updateUserRole srv userId newRole w =
     (case verify_admin srv w of (chk, w2) \<Rightarrow>
        (case chk of
           Inl e \<Rightarrow> (catch_all (Inl e), w2)
         | Inr u \<Rightarrow>
             (case call srv (role_update_request userId newRole) w2
              of (r, w3) \<Rightarrow> (catch_all (and_then r data_or_throw), w3))))"

section \<open>A reference model of the platform's store\<close>

text \<open>
  The platform (its client library and its hosted storage) is not part of the
  repository: the module only sends it requests. The properties that speak of stored
  rows are stated over the model below, which answers those requests the way the
  specification describes the platform.
\<close>

type_synonym row = "(string \<times> jsval) list"

text \<open>
  Modelled from the spec: the platform's state, which the repository does not hold. It
  is the current principal (\<^verbatim>\<open>null\<close> when nobody is signed in) and the three tables
  the module reads and writes, each a list of rows from column names to values.
\<close>

record store =
  current_user :: jsval
  paginas :: "row list"
  pagina_historial :: "row list"
  profiles :: "row list"

definition col :: "row \<Rightarrow> string \<Rightarrow> jsval" where
  "col r c = (case map_of r c of Some v \<Rightarrow> v | None \<Rightarrow> JNull)"

text \<open>The column list of a \<^verbatim>\<open>select\<close>, as the module writes it: names between commas.\<close>

fun split_commas :: "string \<Rightarrow> string list" where
  "split_commas [] = [[]]"
| "split_commas (c # cs) =
     (if c = CHR '','' then [] # split_commas cs
      else (case split_commas cs of [] \<Rightarrow> [[c]] | n # ns \<Rightarrow> (c # n) # ns))"

definition columns_of :: "string \<Rightarrow> string list" where
  "columns_of s = split_commas (filter (\<lambda>c. c \<noteq> CHR '' '') s)"

definition project :: "string list \<Rightarrow> row \<Rightarrow> row" where
  "project cols r = map (\<lambda>c. (c, col r c)) cols"

definition matching :: "(string \<times> jsval) list \<Rightarrow> row \<Rightarrow> bool" where
  "matching fs r = list_all (\<lambda>(c, v). col r c = v) fs"

text \<open>
  Timestamps are stored as the text \<^verbatim>\<open>toISOString\<close> produces, whose alphabetical order
  is the order in time; a row with no text in the ordering column sorts first.
\<close>

fun order_key :: "jsval \<Rightarrow> string" where
  "order_key (JStr s) = s"
| "order_key v = []"

definition ordered :: "(string \<times> bool) option \<Rightarrow> row list \<Rightarrow> row list" where
  "ordered ord rows =
     (case ord of
        None \<Rightarrow> rows
      | Some (c, ascending) \<Rightarrow>
          (if ascending then sort_key (\<lambda>r. order_key (col r c)) rows
           else rev (sort_key (\<lambda>r. order_key (col r c)) rows)))"

definition limited :: "nat option \<Rightarrow> row list \<Rightarrow> row list" where
  "limited lim rows = (case lim of None \<Rightarrow> rows | Some n \<Rightarrow> take n rows)"

definition no_rows_error :: jsval where
  "no_rows_error =
     JObj [(''code'', JStr ''PGRST116''),
           (''message'', JStr ''JSON object requested, multiple (or no) rows returned'')]"

text \<open>
  Modelled from the spec: the platform's execution of a \<^verbatim>\<open>select\<close>, which the
  repository does not contain. The rows equal to the filters on the named columns are
  put in the requested order, cut to the limit and projected to the selected columns. A
  single-row fetch answers with the row when there is exactly one, and otherwise with
  no data and the error whose code is \<^verbatim>\<open>PGRST116\<close>.
\<close>

definition run_select :: "string \<Rightarrow> query \<Rightarrow> row list \<Rightarrow> jsval" where
  "run_select cols q rows =
     (let rs = map (project (columns_of cols))
                 (limited (q_limit q) (ordered (q_order q) (filter (matching (q_filters q)) rows)))
      in if q_single q
         then (case rs of [r] \<Rightarrow> response (JObj r) JNull | _ \<Rightarrow> response JNull no_rows_error)
         else response (JArr (map JObj rs)) JNull)"

fun object_fields :: "jsval \<Rightarrow> row" where
  "object_fields (JObj kvs) = kvs"
| "object_fields v = []"

definition merge_row :: "row \<Rightarrow> row \<Rightarrow> row" where
  "merge_row vals r = vals @ filter (\<lambda>(c, v). c \<notin> set (map fst vals)) r"

text \<open>
  Modelled from the spec: the platform's execution of an \<^verbatim>\<open>upsert\<close>, which the
  repository does not contain. A row that agrees with the new one on the conflict
  column is overwritten with the new values, unless duplicates are to be ignored; when
  there is none, the new row is added.
\<close>

definition run_upsert :: "jsval \<Rightarrow> string \<Rightarrow> bool \<Rightarrow> row list \<Rightarrow> row list" where
  "run_upsert rowv onConflict ignoreDuplicates rows =
     (let new = object_fields rowv;
          clash = (\<lambda>r. col r onConflict = col new onConflict)
      in if list_ex clash rows
         then (if ignoreDuplicates then rows
               else map (\<lambda>r. if clash r then merge_row new r else r) rows)
         else rows @ [new])"

text \<open>
  Modelled from the spec: the platform's execution of an \<^verbatim>\<open>update\<close>, which the
  repository does not contain. The given values are written to every row the filters
  select; the other rows stay as they are.
\<close>

definition run_update :: "jsval \<Rightarrow> (string \<times> jsval) list \<Rightarrow> row list \<Rightarrow> row list" where
  "run_update vals fs rows =
     map (\<lambda>r. if matching fs r then merge_row (object_fields vals) r else r) rows"

definition table_rows :: "string \<Rightarrow> store \<Rightarrow> row list option" where
  "table_rows t s =
     (if t = ''paginas'' then Some (paginas s)
      else if t = ''pagina_historial'' then Some (pagina_historial s)
      else if t = ''profiles'' then Some (profiles s)
      else None)"

definition put_rows :: "string \<Rightarrow> row list \<Rightarrow> store \<Rightarrow> store" where
  "put_rows t rows s =
     (if t = ''paginas'' then s\<lparr>paginas := rows\<rparr>
      else if t = ''pagina_historial'' then s\<lparr>pagina_historial := rows\<rparr>
      else if t = ''profiles'' then s\<lparr>profiles := rows\<rparr>
      else s)"

text \<open>
  Modelled from the spec: the platform's answer to a query, which the repository does
  not contain. A write answers with neither data nor error (the module asks for no
  rows back), whether or not a row was written. A table the platform does not have,
  which the module never names, answers with an error.
\<close>

definition run_query :: "query \<Rightarrow> store \<Rightarrow> remote_result \<times> store" where
  "run_query q s =
     (case table_rows (q_table q) s of
        None \<Rightarrow>
          (Resolved (response JNull (JObj [(''code'', JStr ''PGRST205'')])), s)
      | Some rows \<Rightarrow>
          (case q_action q of
             Select cols \<Rightarrow> (Resolved (run_select cols q rows), s)
           | Upsert rowv onConflict ignoreDuplicates \<Rightarrow>
               (Resolved (response JNull JNull),
                put_rows (q_table q) (run_upsert rowv onConflict ignoreDuplicates rows) s)
           | Update vals \<Rightarrow>
               (Resolved (response JNull JNull),
                put_rows (q_table q) (run_update vals (q_filters q) rows) s)))"

text \<open>
  Modelled from the spec: the platform itself, which the repository does not contain.
  \<^verbatim>\<open>getUser\<close> answers with the current principal, or with a null user when there is
  none. What the other authentication calls answer is defined by the platform alone:
  it is the parameter \<open>platform_defined\<close>.
\<close>

definition platform :: "store remote \<Rightarrow> store remote" where
  "platform platform_defined req s =
     (case req of
        GetUser \<Rightarrow> (Resolved (response (JObj [(''user'', current_user s)]) JNull), s)
      | From q \<Rightarrow> run_query q s
      | SignUp email password metadata \<Rightarrow> platform_defined req s
      | SignInWithPassword email password \<Rightarrow> platform_defined req s
      | SignOut \<Rightarrow> platform_defined req s
      | GetSession \<Rightarrow> platform_defined req s
      | ResetPasswordForEmail email redirectTo \<Rightarrow> platform_defined req s)"

section \<open>The vocabulary of the properties\<close>

text \<open>A property of the record an operation returns; an operation that throws has none.\<close>

definition returns :: "(jsval \<Rightarrow> bool) \<Rightarrow> completion \<Rightarrow> bool" where
  "returns P c = (case c of Returned out \<Rightarrow> P out | Thrown e \<Rightarrow> False)"

definition exactly_one_populated :: "jsval \<Rightarrow> bool" where
  "exactly_one_populated out =
     (non_null (field out ''data'') \<noteq> non_null (field out ''error''))"

definition at_most_one_populated :: "jsval \<Rightarrow> bool" where
  "at_most_one_populated out =
     (\<not> (non_null (field out ''data'') \<and> non_null (field out ''error'')))"

text \<open>
  A remote call fails with \<open>e\<close> when its promise rejects with \<open>e\<close> (the network),
  or resolves to an answer whose \<^verbatim>\<open>error\<close> is \<open>e\<close> and truthy (reported by the
  platform).
\<close>

definition fails_with :: "remote_result \<Rightarrow> jsval \<Rightarrow> bool" where
  "fails_with r e =
     (case r of
        Rejected x \<Rightarrow> x = e
      | Resolved v \<Rightarrow>
          (case get_prop v ''error'' of Inr x \<Rightarrow> x = e \<and> truthy e | Inl t \<Rightarrow> False))"

text \<open>The world after two saves of the same page, one after the other.\<close>

definition saved_twice ::
  "'st remote \<Rightarrow> string \<Rightarrow> string \<Rightarrow> string \<Rightarrow> string \<Rightarrow> string \<Rightarrow> 'st world
     \<Rightarrow> 'st world" where
  "saved_twice srv pageName c1 t1 c2 t2 w =
     snd (savePageContent srv pageName c2 t2 (snd (savePageContent srv pageName c1 t1 w)))"

text \<open>
  Two stand-ins for the platform, used in the examples: one that answers the requests
  from a prepared list of answers, and one that cannot be reached at all.
\<close>

definition scripted :: "remote_result list remote" where
  "scripted req s =
     (case s of
        [] \<Rightarrow> (Rejected (JError ''TypeError'' ''Failed to fetch''), [])
      | r # rs \<Rightarrow> (r, rs))"

definition offline :: "store remote" where
  "offline req s = (Rejected (JError ''TypeError'' ''Failed to fetch''), s)"

text \<open>
  Answers and errors for the examples: a failed fetch, an error the platform reports,
  the answers of \<^verbatim>\<open>getUser\<close> with a user, with a null user, and with the null user
  and the error a client without a session gets, and the answer of a role lookup.
\<close>

definition network_error :: jsval where
  "network_error = JError ''TypeError'' ''Failed to fetch''"

definition denied :: jsval where
  "denied = JObj [(''code'', JStr ''42501''), (''message'', JStr ''permission denied'')]"

definition signed_in_answer :: remote_result where
  "signed_in_answer = Resolved (response (JObj [(''user'', JObj [(''id'', JStr ''u1'')])]) JNull)"

definition null_user_answer :: remote_result where
  "null_user_answer = Resolved (response (JObj [(''user'', JNull)]) JNull)"

definition session_missing_answer :: remote_result where
  "session_missing_answer =
     Resolved (response (JObj [(''user'', JNull)])
       (JError ''AuthSessionMissingError'' ''Auth session missing!''))"

definition role_answer_of :: "string \<Rightarrow> remote_result" where
  "role_answer_of r = Resolved (response (JObj [(''role'', JStr r)]) JNull)"

text \<open>
  An example store: an administrator \<^verbatim>\<open>u1\<close> is signed in, \<^verbatim>\<open>u123\<close> is an ordinary
  user, and there is one page, \<^verbatim>\<open>home\<close>.
\<close>

definition example_store :: store where
  "example_store =
     \<lparr>current_user = JObj [(''id'', JStr ''u1''), (''email'', JStr ''ana@example.org'')],
      paginas =
        [[(''nombre'', JStr ''home''), (''contenido_html'', JStr ''<p>old</p>''),
          (''usuario_id'', JStr ''u0''), (''actualizado_en'', JStr ''2024-01-01T00:00:00.000Z'')]],
      pagina_historial = [],
      profiles =
        [[(''id'', JStr ''u1''), (''email'', JStr ''ana@example.org''), (''role'', JStr ''admin''),
          (''created_at'', JStr ''2023-01-01T00:00:00.000Z'')],
         [(''id'', JStr ''u123''), (''email'', JStr ''luis@example.org''), (''role'', JStr ''user''),
          (''created_at'', JStr ''2023-02-01T00:00:00.000Z'')]]\<rparr>"

text \<open>A store with twelve history entries of \<^verbatim>\<open>home\<close> and one of another page.\<close>

definition entry :: "string \<Rightarrow> string \<Rightarrow> string \<Rightarrow> row" where
  "entry p t c =
     [(''nombre_pagina'', JStr p), (''contenido_html'', JStr c), (''actualizado_en'', JStr t),
      (''usuario_id'', JStr ''u1'')]"

definition history_store :: store where
  "history_store = example_store\<lparr>pagina_historial :=
     [entry ''home'' ''2024-01-03'' ''c'', entry ''home'' ''2024-01-01'' ''a'',
      entry ''about'' ''2024-01-09'' ''x'', entry ''home'' ''2024-01-02'' ''b'',
      entry ''home'' ''2024-01-12'' ''l'', entry ''home'' ''2024-01-04'' ''d'',
      entry ''home'' ''2024-01-05'' ''e'', entry ''home'' ''2024-01-06'' ''f'',
      entry ''home'' ''2024-01-11'' ''k'', entry ''home'' ''2024-01-07'' ''g'',
      entry ''home'' ''2024-01-08'' ''h'', entry ''home'' ''2024-01-09'' ''i'',
      entry ''home'' ''2024-01-10'' ''j'']\<rparr>"

definition member_store :: store where
  "member_store = example_store\<lparr>current_user := JObj [(''id'', JStr ''u123'')]\<rparr>"

definition stranger_store :: store where
  "stranger_store = example_store\<lparr>current_user := JObj [(''id'', JStr ''u9'')]\<rparr>"

section \<open>The outcome record of every operation\<close>

lemma catch_all_shape:
  "returns at_most_one_populated (catch_all (and_then r data_or_throw))"
  by (cases r)
     (auto simp: returns_def catch_all_def and_then_def data_or_throw_def outcome_def
        at_most_one_populated_def non_null_def split: sum.splits)

lemma catch_all_thrown_shape: "returns at_most_one_populated (catch_all (Inl e))"
  by (simp add: returns_def catch_all_def outcome_def at_most_one_populated_def non_null_def)

lemma signOut_shape: "returns at_most_one_populated (fst (signOut srv w))"
  by (auto simp: returns_def signOut_def and_then_def at_most_one_populated_def non_null_def
        split: prod.splits sum.splits)

lemma loadPageContent_shape: "returns at_most_one_populated (fst (loadPageContent srv p w))"
  by (auto simp: returns_def loadPageContent_def catch_all_def and_then_def outcome_def
        at_most_one_populated_def non_null_def split: prod.splits sum.splits)

text \<open>
  C1, as the specification states it: for every operation and every remote outcome the
  returned record has exactly one of \<^verbatim>\<open>data\<close> and \<^verbatim>\<open>error\<close> non-null. It fails for
  \<^verbatim>\<open>loadPageContent\<close> when the platform answers the single-row fetch with its no-row
  error: the error is swallowed and the record has neither field populated.
\<close>

theorem outcome_contract_counterexample:
  "fst (loadPageContent scripted ''home''
          ([Resolved (JObj [(''data'', JNull),
                            (''error'', JObj [(''code'', JStr ''PGRST116'')])])], [])) =
     Returned (outcome JNull JNull)
   \<and> \<not> exactly_one_populated (outcome JNull JNull)"
  by (simp add: loadPageContent_def call_def scripted_def and_then_def catch_all_def
        outcome_def exactly_one_populated_def non_null_def)

text \<open>
  C1, amended: for every operation of the three groups, every input and every remote
  outcome, the returned record never has both \<^verbatim>\<open>data\<close> and \<^verbatim>\<open>error\<close> non-null. (Both
  can be null: the swallowed no-row error of \<^verbatim>\<open>loadPageContent\<close>, the success of
  \<^verbatim>\<open>signOut\<close>, whose record has no \<^verbatim>\<open>data\<close> field, and a success with null data.)
\<close>

theorem outcome_never_both_populated:
  "returns at_most_one_populated (fst (signUp srv1 email1 password1 userMetadata w1))
 \<and> returns at_most_one_populated (fst (signIn srv2 email2 password2 w2))
 \<and> returns at_most_one_populated (fst (signOut srv3 w3))
 \<and> returns at_most_one_populated (fst (getSession srv4 w4))
 \<and> returns at_most_one_populated (fst (getUser srv5 w5))
 \<and> returns at_most_one_populated (fst (resetPassword srv6 origin email6 w6))
 \<and> returns at_most_one_populated (fst (savePageContent srv7 pageName7 content now w7))
 \<and> returns at_most_one_populated (fst (loadPageContent srv8 pageName8 w8))
 \<and> returns at_most_one_populated (fst (getPageHistory srv9 pageName9 w9))
 \<and> returns at_most_one_populated (fst (getUsers srv10 w10))
 \<and> returns at_most_one_populated (fst (updateUserRole srv11 userId newRole w11))"
proof (intro conjI)
  show "returns at_most_one_populated (fst (signUp srv1 email1 password1 userMetadata w1))"
    by (simp add: signUp_def catch_all_shape split: prod.splits)
  show "returns at_most_one_populated (fst (signIn srv2 email2 password2 w2))"
    by (simp add: signIn_def catch_all_shape split: prod.splits)
  show "returns at_most_one_populated (fst (signOut srv3 w3))"
    by (rule signOut_shape)
  show "returns at_most_one_populated (fst (getSession srv4 w4))"
    by (simp add: getSession_def catch_all_shape split: prod.splits)
  show "returns at_most_one_populated (fst (getUser srv5 w5))"
    by (simp add: getUser_def catch_all_shape split: prod.splits)
  show "returns at_most_one_populated (fst (resetPassword srv6 origin email6 w6))"
    by (simp add: resetPassword_def catch_all_shape catch_all_thrown_shape
          split: prod.splits option.splits)
  show "returns at_most_one_populated (fst (savePageContent srv7 pageName7 content now w7))"
    by (simp add: savePageContent_def catch_all_shape catch_all_thrown_shape
          split: prod.splits sum.splits)
  show "returns at_most_one_populated (fst (loadPageContent srv8 pageName8 w8))"
    by (rule loadPageContent_shape)
  show "returns at_most_one_populated (fst (getPageHistory srv9 pageName9 w9))"
    by (simp add: getPageHistory_def catch_all_shape split: prod.splits)
  show "returns at_most_one_populated (fst (getUsers srv10 w10))"
    by (simp add: getUsers_def catch_all_shape catch_all_thrown_shape
          split: prod.splits sum.splits)
  show "returns at_most_one_populated (fst (updateUserRole srv11 userId newRole w11))"
    by (simp add: updateUserRole_def catch_all_shape catch_all_thrown_shape
          split: prod.splits sum.splits)
qed

section \<open>Absence of a page, and failures\<close>

lemma truthy_get_prop: "truthy v \<Longrightarrow> \<exists>x. get_prop v k = Inr x"
  by (cases v) simp_all

lemma matching_single: "matching [(c, v)] = (\<lambda>r. col r c = v)"
  by (simp add: fun_eq_iff matching_def)

lemma columns_page:
  "columns_of ''contenido_html, actualizado_en'' = [''contenido_html'', ''actualizado_en'']"
  by (simp add: columns_of_def)

lemma columns_history:
  "columns_of ''contenido_html, actualizado_en, usuario_id'' =
     [''contenido_html'', ''actualizado_en'', ''usuario_id'']"
  by (simp add: columns_of_def)

lemma columns_role: "columns_of ''role'' = [''role'']"
  by (simp add: columns_of_def)

text \<open>What the reference platform answers to the fetch of a page.\<close>

lemma load_answer:
  "platform pd (load_request p) s =
     (Resolved
        (case filter (\<lambda>r. col r ''nombre'' = JStr p) (paginas s) of
           [r] \<Rightarrow> response (JObj [(''contenido_html'', col r ''contenido_html''),
                                (''actualizado_en'', col r ''actualizado_en'')]) JNull
         | _ \<Rightarrow> response JNull no_rows_error), s)"
proof (cases "filter (\<lambda>r. col r ''nombre'' = JStr p) (paginas s)")
  case Nil
  then show ?thesis
    by (simp add: platform_def load_request_def from_table_def single_row_def eq_filter_def
          run_query_def table_rows_def run_select_def limited_def ordered_def matching_single)
next
  case (Cons r rs)
  then show ?thesis
    by (cases rs)
       (simp_all add: platform_def load_request_def from_table_def single_row_def eq_filter_def
          run_query_def table_rows_def run_select_def limited_def ordered_def matching_single
          columns_page project_def)
qed

text \<open>
  C2: when the platform answers the fetch of a page with its no-row error (code
  \<^verbatim>\<open>PGRST116\<close>, no data), \<^verbatim>\<open>loadPageContent\<close> returns \<^verbatim>\<open>{data: null, error: null}\<close>;
  when it answers with any other error, or the call itself fails, the operation returns
  \<^verbatim>\<open>{data: null, error}\<close> with that error, which is non-null.
\<close>

theorem loadPageContent_absence_is_not_failure:
  "(srv (load_request pageName) s = (Resolved (response JNull e), s1) \<and> truthy e
      \<and> get_prop e ''code'' = Inr (JStr ''PGRST116'')
    \<longrightarrow> loadPageContent srv pageName (s, log) =
          (Returned (outcome JNull JNull), (s1, log @ [load_request pageName])))
 \<and> (srv (load_request pageName) s = (Resolved (response d e), s1) \<and> truthy e
      \<and> get_prop e ''code'' \<noteq> Inr (JStr ''PGRST116'')
    \<longrightarrow> loadPageContent srv pageName (s, log) =
          (Returned (outcome JNull e), (s1, log @ [load_request pageName])) \<and> non_null e)
 \<and> (srv (load_request pageName) s = (Rejected e, s1)
    \<longrightarrow> loadPageContent srv pageName (s, log) =
          (Returned (outcome JNull e), (s1, log @ [load_request pageName])))"
proof (intro conjI impI)
  assume "srv (load_request pageName) s = (Resolved (response JNull e), s1) \<and> truthy e
      \<and> get_prop e ''code'' = Inr (JStr ''PGRST116'')"
  then show "loadPageContent srv pageName (s, log) =
          (Returned (outcome JNull JNull), (s1, log @ [load_request pageName]))"
    by (simp add: loadPageContent_def call_def response_def and_then_def catch_all_def)
next
  assume a: "srv (load_request pageName) s = (Resolved (response d e), s1) \<and> truthy e
      \<and> get_prop e ''code'' \<noteq> Inr (JStr ''PGRST116'')"
  then obtain c where "get_prop e ''code'' = Inr c" and "c \<noteq> JStr ''PGRST116''"
    using truthy_get_prop [of e "''code''"] by auto
  with a show "loadPageContent srv pageName (s, log) =
          (Returned (outcome JNull e), (s1, log @ [load_request pageName]))"
    by (simp add: loadPageContent_def call_def response_def and_then_def catch_all_def)
  from a show "non_null e"
    by (cases e) (simp_all add: non_null_def)
next
  assume "srv (load_request pageName) s = (Rejected e, s1)"
  then show "loadPageContent srv pageName (s, log) =
          (Returned (outcome JNull e), (s1, log @ [load_request pageName]))"
    by (simp add: loadPageContent_def call_def and_then_def catch_all_def)
qed

theorem loadPageContent_absence_is_not_failure_witness:
  "loadPageContent (platform offline) ''about'' (example_store, []) =
       (Returned (outcome JNull JNull), (example_store, [load_request ''about'']))
   \<and> loadPageContent scripted ''about''
         ([Resolved (response JNull (JObj [(''code'', JStr ''42501'')]))], []) =
       (Returned (outcome JNull (JObj [(''code'', JStr ''42501'')])), ([], [load_request ''about'']))
   \<and> loadPageContent scripted ''about'' ([Rejected (JError ''TypeError'' ''Failed to fetch'')], []) =
       (Returned (outcome JNull (JError ''TypeError'' ''Failed to fetch'')),
        ([], [load_request ''about'']))"
proof -
  have a: "platform offline (load_request ''about'') example_store =
      (Resolved (response JNull no_rows_error), example_store)"
    by (simp add: load_answer example_store_def col_def)
  have a': "truthy no_rows_error \<and> get_prop no_rows_error ''code'' = Inr (JStr ''PGRST116'')"
    by (simp add: no_rows_error_def)
  have b: "scripted (load_request ''about'')
        [Resolved (response JNull (JObj [(''code'', JStr ''42501'')]))] =
      (Resolved (response JNull (JObj [(''code'', JStr ''42501'')])), [])"
    by (simp add: scripted_def)
  have b': "truthy (JObj [(''code'', JStr ''42501'')])
      \<and> get_prop (JObj [(''code'', JStr ''42501'')]) ''code'' \<noteq> Inr (JStr ''PGRST116'')"
    by simp
  have c: "scripted (load_request ''about'') [Rejected (JError ''TypeError'' ''Failed to fetch'')] =
      (Rejected (JError ''TypeError'' ''Failed to fetch''), [])"
    by (simp add: scripted_def)
  note t1 = loadPageContent_absence_is_not_failure
      [where srv = "platform offline" and pageName = "''about''" and s = example_store
         and e = no_rows_error and ?s1.0 = example_store and log = "[]",
       THEN conjunct1, rule_format, OF conjI [OF a a']]
  note t2 = loadPageContent_absence_is_not_failure
      [where srv = scripted and pageName = "''about''"
         and s = "[Resolved (response JNull (JObj [(''code'', JStr ''42501'')]))]"
         and e = "JObj [(''code'', JStr ''42501'')]" and ?s1.0 = "[]" and log = "[]"
         and d = JNull,
       THEN conjunct2, THEN conjunct1, rule_format, OF conjI [OF b b'], THEN conjunct1]
  note t3 = loadPageContent_absence_is_not_failure
      [where srv = scripted and pageName = "''about''"
         and s = "[Rejected (JError ''TypeError'' ''Failed to fetch'')]"
         and e = "JError ''TypeError'' ''Failed to fetch''" and ?s1.0 = "[]" and log = "[]",
       THEN conjunct2, THEN conjunct2, rule_format, OF c]
  from t1 t2 t3 show ?thesis by simp
qed

section \<open>Who may write\<close>

lemma getUser_answered:
  "srv GetUser s = (Resolved (response (JObj [(''user'', user)]) JNull), s1) \<Longrightarrow>
   getUser srv (s, log) =
     (Returned (outcome (JObj [(''user'', user)]) JNull), (s1, log @ [GetUser]))"
  by (simp add: getUser_def call_def response_def catch_all_def and_then_def data_or_throw_def)

lemma authenticated_user_ok:
  "truthy u \<Longrightarrow>
   authenticated_user msg (Returned (outcome (JObj [(''user'', u)]) JNull)) = Inr u"
  by (simp add: authenticated_user_def and_then_def outcome_def)

lemma authenticated_user_none:
  "\<not> truthy u \<Longrightarrow>
   authenticated_user msg (Returned (outcome (JObj [(''user'', u)]) JNull)) =
     Inl (JError ''Error'' msg)"
  by (simp add: authenticated_user_def and_then_def outcome_def)

text \<open>
  When the library answers the request for the user with a null user and no error,
  \<^verbatim>\<open>savePageContent\<close> returns no data and the locally made error
  \<^verbatim>\<open>Error('Usuario no autenticado')\<close>, for every page name and content; the only request
  it has sent is the one for the user, so nothing is written to the page store.
\<close>

lemma savePageContent_unauthenticated:
  assumes "srv GetUser s = (Resolved (response (JObj [(''user'', user)]) JNull), s1)"
    and "\<not> truthy user"
  shows "savePageContent srv pageName content now (s, log) =
     (Returned (outcome JNull (JError ''Error'' ''Usuario no autenticado'')),
      (s1, log @ [GetUser]))"
  unfolding savePageContent_def getUser_answered [of srv s user s1 log, OF assms(1)]
  by (simp add: authenticated_user_none [OF assms(2)] and_then_def catch_all_def)

text \<open>
  When the answer to the request for the user carries an error, \<^verbatim>\<open>authAPI.getUser\<close>
  returns null data, and the save ends in the \<^verbatim>\<open>TypeError\<close> of reading \<^verbatim>\<open>user\<close> of
  \<^verbatim>\<open>null\<close>, again without a write.
\<close>

lemma savePageContent_user_request_failed:
  assumes "srv GetUser s = (Resolved (response d e), s1)" and "truthy e"
  shows "savePageContent srv pageName content now (s, log) =
     (Returned (outcome JNull (type_error JNull ''user'')), (s1, log @ [GetUser]))"
  using assms
  by (simp add: savePageContent_def getUser_def call_def response_def catch_all_def and_then_def
        data_or_throw_def authenticated_user_def outcome_def)

text \<open>
  C3 says that with no principal signed in \<^verbatim>\<open>savePageContent\<close> returns no data and the
  error \<^verbatim>\<open>Usuario no autenticado\<close>, and writes nothing. The code does not: a client
  with no session gets from \<^verbatim>\<open>supabase.auth.getUser\<close> a null user together with an
  error, \<^verbatim>\<open>authAPI.getUser\<close> turns that into null data, and the save returns the
  \<^verbatim>\<open>TypeError\<close> of reading \<^verbatim>\<open>user\<close> of \<^verbatim>\<open>null\<close> before its own check is reached.
  It sends no write.
\<close>

theorem savePageContent_signed_out_is_type_error:
  "savePageContent scripted ''home'' ''<p>hi</p>'' ''2024-05-01T10:00:00.000Z''
       ([session_missing_answer], []) =
     (Returned (outcome JNull (type_error JNull ''user'')), ([], [GetUser]))
   \<and> type_error JNull ''user'' \<noteq> JError ''Error'' ''Usuario no autenticado''"
  by (simp add: savePageContent_def getUser_def call_def scripted_def session_missing_answer_def
        response_def catch_all_def and_then_def data_or_throw_def authenticated_user_def
        outcome_def type_error_def)

section \<open>Who may administer\<close>

lemma verify_admin_lookup:
  assumes "srv GetUser s = (Resolved (response (JObj [(''user'', user)]) JNull), s1)"
    and "truthy user" and "get_prop user ''id'' = Inr uid"
    and "srv (role_request uid) s1 = (Resolved (response profile e), s2)"
  shows "verify_admin srv (s, log) =
     (and_then (get_prop profile ''role'') (\<lambda>role.
        if role \<noteq> JStr ''admin'' then Inl (JError ''Error'' ''No autorizado'') else Inr ()),
      (s2, log @ [GetUser, role_request uid]))"
  unfolding verify_admin_def getUser_answered [of srv s user s1 log, OF assms(1)]
  by (simp add: authenticated_user_ok [OF assms(2)] assms(3,4) and_then_def call_def response_def)

text \<open>
  C4: for a signed-in principal whose profile has a role other than the string
  \<^verbatim>\<open>admin\<close>, \<^verbatim>\<open>getUsers\<close> and \<^verbatim>\<open>updateUserRole\<close> both return no data and the error
  \<^verbatim>\<open>Error('No autorizado')\<close>. They have sent the request for the user and the lookup of
  the caller's profile and nothing else: no role is updated.
\<close>

theorem non_admin_is_refused:
  assumes "srv GetUser s = (Resolved (response (JObj [(''user'', user)]) JNull), s1)"
    and "truthy user" and "get_prop user ''id'' = Inr uid"
    and "srv (role_request uid) s1 = (Resolved (response profile e), s2)"
    and "get_prop profile ''role'' = Inr role" and "role \<noteq> JStr ''admin''"
  shows "getUsers srv (s, log) =
       (Returned (outcome JNull (JError ''Error'' ''No autorizado'')),
        (s2, log @ [GetUser, role_request uid]))
     \<and> updateUserRole srv userId newRole (s, log) =
       (Returned (outcome JNull (JError ''Error'' ''No autorizado'')),
        (s2, log @ [GetUser, role_request uid]))"
  unfolding getUsers_def updateUserRole_def
    verify_admin_lookup [of srv s user s1 uid profile e s2 log, OF assms(1-4)]
  using assms(5,6) by (simp add: and_then_def catch_all_def)

lemma role_answer:
  "platform pd (role_request uid) s =
     (Resolved
        (case filter (\<lambda>r. col r ''id'' = uid) (profiles s) of
           [r] \<Rightarrow> response (JObj [(''role'', col r ''role'')]) JNull
         | _ \<Rightarrow> response JNull no_rows_error), s)"
proof (cases "filter (\<lambda>r. col r ''id'' = uid) (profiles s)")
  case Nil
  then show ?thesis
    by (simp add: platform_def role_request_def from_table_def single_row_def eq_filter_def
          run_query_def table_rows_def run_select_def limited_def ordered_def matching_single)
next
  case (Cons r rs)
  then show ?thesis
    by (cases rs)
       (simp_all add: platform_def role_request_def from_table_def single_row_def eq_filter_def
          run_query_def table_rows_def run_select_def limited_def ordered_def matching_single
          columns_role project_def)
qed

theorem non_admin_is_refused_witness:
  "getUsers (platform offline) (member_store, []) =
       (Returned (outcome JNull (JError ''Error'' ''No autorizado'')),
        (member_store, [GetUser, role_request (JStr ''u123'')]))
   \<and> updateUserRole (platform offline) ''u1'' ''user'' (member_store, []) =
       (Returned (outcome JNull (JError ''Error'' ''No autorizado'')),
        (member_store, [GetUser, role_request (JStr ''u123'')]))"
proof -
  have a: "platform offline GetUser member_store =
      (Resolved (response (JObj [(''user'', JObj [(''id'', JStr ''u123'')])]) JNull),
       member_store)"
    by (simp add: platform_def member_store_def)
  have b: "truthy (JObj [(''id'', JStr ''u123'')])"
    by simp
  have c: "get_prop (JObj [(''id'', JStr ''u123'')]) ''id'' = Inr (JStr ''u123'')"
    by simp
  have d: "platform offline (role_request (JStr ''u123'')) member_store =
      (Resolved (response (JObj [(''role'', JStr ''user'')]) JNull), member_store)"
    by (simp add: role_answer member_store_def example_store_def col_def)
  have e: "get_prop (JObj [(''role'', JStr ''user'')]) ''role'' = Inr (JStr ''user'')"
    by simp
  have f: "JStr ''user'' \<noteq> JStr ''admin''"
    by simp
  show ?thesis
    using non_admin_is_refused
        [where srv = "platform offline" and s = member_store and ?s1.0 = member_store
           and ?s2.0 = member_store and log = "[]" and userId = "''u1''" and newRole = "''user''",
         OF a b c d e f]
    by simp
qed

text \<open>
  C9: for a signed-in principal with no profile row (the lookup of the role answers
  with no record), \<^verbatim>\<open>getUsers\<close> and \<^verbatim>\<open>updateUserRole\<close> both return no data and a
  non-null error: the \<^verbatim>\<open>TypeError\<close> of reading \<^verbatim>\<open>role\<close> of \<^verbatim>\<open>null\<close>, which the
  \<^verbatim>\<open>catch\<close> returns. Nothing is sent after the lookup.
\<close>

theorem missing_profile_is_refused:
  assumes "srv GetUser s = (Resolved (response (JObj [(''user'', user)]) JNull), s1)"
    and "truthy user" and "get_prop user ''id'' = Inr uid"
    and "srv (role_request uid) s1 = (Resolved (response JNull e), s2)"
  shows "getUsers srv (s, log) =
       (Returned (outcome JNull (type_error JNull ''role'')),
        (s2, log @ [GetUser, role_request uid]))
     \<and> updateUserRole srv userId newRole (s, log) =
       (Returned (outcome JNull (type_error JNull ''role'')),
        (s2, log @ [GetUser, role_request uid]))
     \<and> non_null (type_error JNull ''role'')"
  unfolding getUsers_def updateUserRole_def
    verify_admin_lookup [of srv s user s1 uid JNull e s2 log, OF assms(1-4)]
  by (simp add: and_then_def catch_all_def non_null_def type_error_def)

theorem missing_profile_is_refused_witness:
  "getUsers (platform offline) (stranger_store, []) =
       (Returned (outcome JNull (type_error JNull ''role'')),
        (stranger_store, [GetUser, role_request (JStr ''u9'')]))
   \<and> updateUserRole (platform offline) ''u1'' ''user'' (stranger_store, []) =
       (Returned (outcome JNull (type_error JNull ''role'')),
        (stranger_store, [GetUser, role_request (JStr ''u9'')]))"
proof -
  have a: "platform offline GetUser stranger_store =
      (Resolved (response (JObj [(''user'', JObj [(''id'', JStr ''u9'')])]) JNull),
       stranger_store)"
    by (simp add: platform_def stranger_store_def)
  have b: "truthy (JObj [(''id'', JStr ''u9'')])"
    by simp
  have c: "get_prop (JObj [(''id'', JStr ''u9'')]) ''id'' = Inr (JStr ''u9'')"
    by simp
  have d: "platform offline (role_request (JStr ''u9'')) stranger_store =
      (Resolved (response JNull no_rows_error), stranger_store)"
    by (simp add: role_answer stranger_store_def example_store_def col_def)
  show ?thesis
    using missing_profile_is_refused
        [where srv = "platform offline" and s = stranger_store and ?s1.0 = stranger_store
           and ?s2.0 = stranger_store and log = "[]" and userId = "''u1''" and newRole = "''user''",
         OF a b c d]
    by simp
qed

section \<open>Failures are returned, never thrown\<close>

lemma failure_is_returned:
  assumes "fails_with r e"
  shows "catch_all (and_then (awaited r) data_or_throw) = Returned (outcome JNull e)"
proof (cases r)
  case (Rejected x)
  with assms show ?thesis
    by (simp add: fails_with_def and_then_def catch_all_def)
next
  case (Resolved v)
  with assms have err: "get_prop v ''error'' = Inr e" and t: "truthy e"
    by (auto simp: fails_with_def split: sum.splits)
  then obtain d where "get_prop v ''data'' = Inr d"
    by (cases v) simp_all
  with Resolved err t show ?thesis
    by (simp add: and_then_def catch_all_def data_or_throw_def)
qed

lemma call_eq:
  "call srv req (s, log) = (awaited (fst (srv req s)), (snd (srv req s), log @ [req]))"
  by (simp add: call_def case_prod_unfold)

lemma single_call_failure:
  assumes "fails_with (fst (srv req s)) e"
  shows "fst (case call srv req (s, log) of (r, w') \<Rightarrow> (catch_all (and_then r data_or_throw), w')) =
     Returned (outcome JNull e)"
  using failure_is_returned [OF assms] by (simp add: call_eq)

lemma signOut_failure:
  assumes "fails_with (fst (srv SignOut s)) e"
  shows "fst (signOut srv (s, log)) = Returned (JObj [(''error'', e)])"
proof (cases "fst (srv SignOut s)")
  case (Rejected x)
  with assms show ?thesis
    by (simp add: fails_with_def signOut_def call_eq and_then_def)
next
  case (Resolved v)
  with assms have "get_prop v ''error'' = Inr e" and "truthy e"
    by (auto simp: fails_with_def split: sum.splits)
  with Resolved show ?thesis
    by (simp add: signOut_def call_eq and_then_def)
qed

lemma loadPageContent_failure:
  assumes "fails_with (fst (srv (load_request pageName) s)) e"
    and "get_prop e ''code'' \<noteq> Inr (JStr ''PGRST116'')"
  shows "fst (loadPageContent srv pageName (s, log)) = Returned (outcome JNull e)"
proof (cases "fst (srv (load_request pageName) s)")
  case (Rejected x)
  with assms show ?thesis
    by (simp add: fails_with_def loadPageContent_def call_eq and_then_def catch_all_def)
next
  case (Resolved v)
  with assms have err: "get_prop v ''error'' = Inr e" and t: "truthy e"
    by (auto simp: fails_with_def split: sum.splits)
  then obtain d where d: "get_prop v ''data'' = Inr d"
    by (cases v) simp_all
  from t obtain c where c: "get_prop e ''code'' = Inr c"
    using truthy_get_prop by blast
  with assms(2) have "c \<noteq> JStr ''PGRST116''"
    by simp
  with Resolved err t d c show ?thesis
    by (simp add: loadPageContent_def call_eq and_then_def catch_all_def)
qed

lemma user_request_failure:
  assumes "fails_with (fst (srv GetUser s)) e"
  shows "\<exists>w1. getUser srv (s, log) = (Returned (outcome JNull e), w1)"
  using single_call_failure [where srv = srv and req = GetUser and s = s and e = e and log = log,
      OF assms]
  by (simp add: getUser_def call_eq)

lemma no_user_data:
  "and_then (authenticated_user msg (Returned (outcome JNull e))) (\<lambda>user. get_prop user ''id'') =
     Inl (type_error JNull ''user'')"
  by (simp add: authenticated_user_def and_then_def outcome_def)

lemma savePageContent_identity_failure:
  assumes "fails_with (fst (srv GetUser s)) e"
  shows "fst (savePageContent srv pageName content now (s, log)) =
     Returned (outcome JNull (type_error JNull ''user''))"
proof -
  from user_request_failure [where srv = srv and s = s and e = e and log = log, OF assms]
  obtain w1
    where "getUser srv (s, log) = (Returned (outcome JNull e), w1)" ..
  then show ?thesis
    by (simp add: savePageContent_def no_user_data catch_all_def)
qed

lemma verify_admin_identity_failure:
  assumes "fails_with (fst (srv GetUser s)) e"
  shows "fst (verify_admin srv (s, log)) = Inl (type_error JNull ''user'')"
proof -
  from user_request_failure [where srv = srv and s = s and e = e and log = log, OF assms]
  obtain w1
    where "getUser srv (s, log) = (Returned (outcome JNull e), w1)" ..
  then show ?thesis
    by (simp add: verify_admin_def no_user_data)
qed

lemma admin_refused:
  assumes "fst (verify_admin srv w) = Inl x"
  shows "fst (getUsers srv w) = Returned (outcome JNull x)"
    and "fst (updateUserRole srv userId newRole w) = Returned (outcome JNull x)"
  using assms
  by (simp_all add: getUsers_def updateUserRole_def catch_all_def case_prod_unfold)

lemma verify_admin_no_user:
  assumes "srv GetUser s = (Resolved (response (JObj [(''user'', user)]) JNull), s1)"
    and "\<not> truthy user"
  shows "fst (verify_admin srv (s, log)) = Inl (JError ''Error'' ''No autenticado'')"
  unfolding verify_admin_def getUser_answered [of srv s user s1 log, OF assms(1)]
  by (simp add: authenticated_user_none [OF assms(2)] and_then_def)

lemma savePageContent_write_failure:
  assumes "srv GetUser s = (Resolved (response (JObj [(''user'', user)]) JNull), s1)"
    and "truthy user" and "get_prop user ''id'' = Inr uid"
    and "fails_with (fst (srv (save_request pageName content uid now) s1)) e"
  shows "fst (savePageContent srv pageName content now (s, log)) = Returned (outcome JNull e)"
  unfolding savePageContent_def getUser_answered [of srv s user s1 log, OF assms(1)]
  using single_call_failure [where srv = srv and req = "save_request pageName content uid now"
      and s = s1 and e = e and log = "log @ [GetUser]", OF assms(4)]
  by (simp add: authenticated_user_ok [OF assms(2)] assms(3) and_then_def)

lemma verify_admin_lookup_rejected:
  assumes "srv GetUser s = (Resolved (response (JObj [(''user'', user)]) JNull), s1)"
    and "truthy user" and "get_prop user ''id'' = Inr uid"
    and "fst (srv (role_request uid) s1) = Rejected e"
  shows "fst (verify_admin srv (s, log)) = Inl e"
  unfolding verify_admin_def getUser_answered [of srv s user s1 log, OF assms(1)]
  using assms(4)
  by (simp add: authenticated_user_ok [OF assms(2)] assms(3) and_then_def call_eq)

lemma admin_query_failure:
  assumes "verify_admin srv (s, log) = (Inr (), (s2, log2))"
  shows "fails_with (fst (srv users_request s2)) e \<Longrightarrow>
           fst (getUsers srv (s, log)) = Returned (outcome JNull e)"
    and "fails_with (fst (srv (role_update_request userId newRole) s2)) e \<Longrightarrow>
           fst (updateUserRole srv userId newRole (s, log)) = Returned (outcome JNull e)"
  using single_call_failure [of srv users_request s2 e log2]
    single_call_failure [of srv "role_update_request userId newRole" s2 e log2]
  by (simp_all add: getUsers_def updateUserRole_def assms)

text \<open>
  C8: every operation of the three groups returns normally, for every input and every
  remote outcome that settles, and whatever fails inside it comes back as the record
  with null data and that error (for \<^verbatim>\<open>signOut\<close>, the record of the error alone):
  a remote call that rejects or reports an error, at whichever step of the operation;
  the missing \<^verbatim>\<open>window\<close> of \<^verbatim>\<open>resetPassword\<close>; the locally made errors for a null
  user and for a caller who is not an administrator. When the request for the user
  fails inside \<^verbatim>\<open>savePageContent\<close>, \<^verbatim>\<open>getUsers\<close> or \<^verbatim>\<open>updateUserRole\<close>, the error
  returned is the \<^verbatim>\<open>TypeError\<close> of reading the user of the null data.
\<close>

theorem failures_are_caught_and_returned:
  "(\<exists>out w'. signUp srv email password userMetadata w = (Returned out, w'))
   \<and> (\<exists>out w'. signIn srv email password w = (Returned out, w'))
   \<and> (\<exists>out w'. signOut srv w = (Returned out, w'))
   \<and> (\<exists>out w'. getSession srv w = (Returned out, w'))
   \<and> (\<exists>out w'. getUser srv w = (Returned out, w'))
   \<and> (\<exists>out w'. resetPassword srv origin email w = (Returned out, w'))
   \<and> (\<exists>out w'. savePageContent srv pageName content now w = (Returned out, w'))
   \<and> (\<exists>out w'. loadPageContent srv pageName w = (Returned out, w'))
   \<and> (\<exists>out w'. getPageHistory srv pageName w = (Returned out, w'))
   \<and> (\<exists>out w'. getUsers srv w = (Returned out, w'))
   \<and> (\<exists>out w'. updateUserRole srv userId newRole w = (Returned out, w'))
   \<and> (fails_with
         (fst (srv (SignUp email password
                      (if userMetadata = JUndefined then JObj [] else userMetadata)) s)) e
        \<longrightarrow> fst (signUp srv email password userMetadata (s, log)) =
            Returned (outcome JNull e))
   \<and> (fails_with (fst (srv (SignInWithPassword email password) s)) e
        \<longrightarrow> fst (signIn srv email password (s, log)) =
            Returned (outcome JNull e))
   \<and> (fails_with (fst (srv SignOut s)) e
        \<longrightarrow> fst (signOut srv (s, log)) =
            Returned (JObj [(''error'', e)]))
   \<and> (fails_with (fst (srv GetSession s)) e
        \<longrightarrow> fst (getSession srv (s, log)) =
            Returned (outcome JNull e))
   \<and> (fails_with (fst (srv GetUser s)) e \<longrightarrow>
        fst (getUser srv (s, log)) =
            Returned (outcome JNull e)
      \<and> fst (savePageContent srv pageName content now (s, log)) =
            Returned (outcome JNull (type_error JNull ''user''))
      \<and> fst (getUsers srv (s, log)) =
            Returned (outcome JNull (type_error JNull ''user''))
      \<and> fst (updateUserRole srv userId newRole (s, log)) =
            Returned (outcome JNull (type_error JNull ''user'')))
   \<and> (fails_with (fst (srv (ResetPasswordForEmail email (b @ ''/update-password'')) s)) e
        \<longrightarrow> fst (resetPassword srv (Some b) email (s, log)) =
            Returned (outcome JNull e))
   \<and> (fst (resetPassword srv None email (s, log)) =
            Returned (outcome JNull (JError ''ReferenceError'' ''window is not defined'')))
   \<and> (fails_with (fst (srv (load_request pageName) s)) e
       \<and> get_prop e ''code'' \<noteq> Inr (JStr ''PGRST116'')
        \<longrightarrow> fst (loadPageContent srv pageName (s, log)) =
            Returned (outcome JNull e))
   \<and> (fails_with (fst (srv (history_request pageName) s)) e
        \<longrightarrow> fst (getPageHistory srv pageName (s, log)) =
            Returned (outcome JNull e))
   \<and> (srv GetUser s = (Resolved (response (JObj [(''user'', user)]) JNull), s1)
       \<and> \<not> truthy user \<longrightarrow>
        fst (savePageContent srv pageName content now (s, log)) =
            Returned (outcome JNull (JError ''Error'' ''Usuario no autenticado''))
      \<and> fst (getUsers srv (s, log)) =
            Returned (outcome JNull (JError ''Error'' ''No autenticado''))
      \<and> fst (updateUserRole srv userId newRole (s, log)) =
            Returned (outcome JNull (JError ''Error'' ''No autenticado'')))
   \<and> (srv GetUser s = (Resolved (response (JObj [(''user'', user)]) JNull), s1)
       \<and> truthy user \<and> get_prop user ''id'' = Inr uid
       \<and> fails_with (fst (srv (save_request pageName content uid now) s1)) e \<longrightarrow>
        fst (savePageContent srv pageName content now (s, log)) =
            Returned (outcome JNull e))
   \<and> (srv GetUser s = (Resolved (response (JObj [(''user'', user)]) JNull), s1)
       \<and> truthy user \<and> get_prop user ''id'' = Inr uid
       \<and> fst (srv (role_request uid) s1) = Rejected e \<longrightarrow>
        fst (getUsers srv (s, log)) =
            Returned (outcome JNull e)
      \<and> fst (updateUserRole srv userId newRole (s, log)) =
            Returned (outcome JNull e))
   \<and> (srv GetUser s = (Resolved (response (JObj [(''user'', user)]) JNull), s1)
       \<and> truthy user \<and> get_prop user ''id'' = Inr uid
       \<and> srv (role_request uid) s1 = (Resolved (response profile e1), s2)
       \<and> get_prop profile ''role'' = Inr role \<and> role \<noteq> JStr ''admin'' \<longrightarrow>
        fst (getUsers srv (s, log)) =
            Returned (outcome JNull (JError ''Error'' ''No autorizado''))
      \<and> fst (updateUserRole srv userId newRole (s, log)) =
            Returned (outcome JNull (JError ''Error'' ''No autorizado'')))
   \<and> (srv GetUser s = (Resolved (response (JObj [(''user'', user)]) JNull), s1)
       \<and> truthy user \<and> get_prop user ''id'' = Inr uid
       \<and> srv (role_request uid) s1 = (Resolved (response profile e1), s2)
       \<and> get_prop profile ''role'' = Inr (JStr ''admin'')
       \<and> fails_with (fst (srv users_request s2)) e \<longrightarrow>
        fst (getUsers srv (s, log)) =
            Returned (outcome JNull e))
   \<and> (srv GetUser s = (Resolved (response (JObj [(''user'', user)]) JNull), s1)
       \<and> truthy user \<and> get_prop user ''id'' = Inr uid
       \<and> srv (role_request uid) s1 = (Resolved (response profile e1), s2)
       \<and> get_prop profile ''role'' = Inr (JStr ''admin'')
       \<and> fails_with (fst (srv (role_update_request userId newRole) s2)) e \<longrightarrow>
        fst (updateUserRole srv userId newRole (s, log)) =
            Returned (outcome JNull e))"
proof -
  have caught: "\<exists>out. catch_all x = Returned out" for x
    by (cases x) (simp_all add: catch_all_def)
  have r1: "\<exists>out w'. signUp srv email password userMetadata w = (Returned out, w')"
    using caught by (simp add: signUp_def split: prod.splits)
  have r2: "\<exists>out w'. signIn srv email password w = (Returned out, w')"
    using caught by (simp add: signIn_def split: prod.splits)
  have r3: "\<exists>out w'. signOut srv w = (Returned out, w')"
    by (simp add: signOut_def split: prod.splits sum.splits)
  have r4: "\<exists>out w'. getSession srv w = (Returned out, w')"
    using caught by (simp add: getSession_def split: prod.splits)
  have r5: "\<exists>out w'. getUser srv w = (Returned out, w')"
    using caught by (simp add: getUser_def split: prod.splits)
  have r6: "\<exists>out w'. resetPassword srv origin email w = (Returned out, w')"
    using caught by (simp add: resetPassword_def split: prod.splits option.splits)
  have r7: "\<exists>out w'. savePageContent srv pageName content now w = (Returned out, w')"
    using caught by (simp add: savePageContent_def split: prod.splits sum.splits)
  have r8: "\<exists>out w'. loadPageContent srv pageName w = (Returned out, w')"
    using caught by (simp add: loadPageContent_def split: prod.splits)
  have r9: "\<exists>out w'. getPageHistory srv pageName w = (Returned out, w')"
    using caught by (simp add: getPageHistory_def split: prod.splits)
  have r10: "\<exists>out w'. getUsers srv w = (Returned out, w')"
    using caught by (simp add: getUsers_def split: prod.splits sum.splits)
  have r11: "\<exists>out w'. updateUserRole srv userId newRole w = (Returned out, w')"
    using caught by (simp add: updateUserRole_def split: prod.splits sum.splits)
  have f1: "fails_with (fst (srv (SignUp email password (if userMetadata
      = JUndefined then JObj [] else userMetadata)) s)) e
        \<longrightarrow> fst (signUp srv email password userMetadata (s, log)) =
            Returned (outcome JNull e)"
    unfolding signUp_def
    by (rule impI)
       (rule single_call_failure [where srv = srv and req
           = "(SignUp email password (if userMetadata
               = JUndefined then JObj [] else userMetadata))" and s = s and e = e])
  have f2: "fails_with (fst (srv (SignInWithPassword email password) s)) e
        \<longrightarrow> fst (signIn srv email password (s, log)) =
            Returned (outcome JNull e)"
    unfolding signIn_def
    by (rule impI)
       (rule single_call_failure [where srv = srv and req
           = "(SignInWithPassword email password)" and s = s and e = e])
  have f3: "fails_with (fst (srv SignOut s)) e \<longrightarrow> fst (signOut srv (s, log)) =
            Returned (JObj [(''error'', e)])"
    by (rule impI) (rule signOut_failure [where srv = srv and s = s and e = e])
  have f4: "fails_with (fst (srv GetSession s)) e
        \<longrightarrow> fst (getSession srv (s, log)) =
            Returned (outcome JNull e)"
    unfolding getSession_def
    by (rule impI)
       (rule single_call_failure [where srv = srv and req = "GetSession" and s = s and e = e])
  have f5: "fails_with (fst (srv GetUser s)) e \<longrightarrow>
        fst (getUser srv (s, log)) =
            Returned (outcome JNull e)
      \<and> fst (savePageContent srv pageName content now (s, log)) =
            Returned (outcome JNull (type_error JNull ''user''))
      \<and> fst (getUsers srv (s, log)) =
            Returned (outcome JNull (type_error JNull ''user''))
      \<and> fst (updateUserRole srv userId newRole (s, log)) =
            Returned (outcome JNull (type_error JNull ''user''))"
    proof (rule impI)
    assume a: "fails_with (fst (srv GetUser s)) e"
    have u: "fst (getUser srv (s, log)) =
          Returned (outcome JNull e)"
      unfolding getUser_def
      by (rule single_call_failure [where srv = srv and req = GetUser and s = s and e = e, OF a])
    have v: "fst (verify_admin srv (s, log)) = Inl (type_error JNull ''user'')"
      by (rule verify_admin_identity_failure [where srv = srv and s = s and e = e, OF a])
    show "fst (getUser srv (s, log)) =
          Returned (outcome JNull e)
      \<and> fst (savePageContent srv pageName content now (s, log)) =
          Returned (outcome JNull (type_error JNull ''user''))
      \<and> fst (getUsers srv (s, log)) =
          Returned (outcome JNull (type_error JNull ''user''))
      \<and> fst (updateUserRole srv userId newRole (s, log)) =
          Returned (outcome JNull (type_error JNull ''user''))"
      using u savePageContent_identity_failure [where srv = srv and s = s and e = e, OF a]
        admin_refused [OF v]
      by simp
  qed
  have f6: "fails_with (fst (srv (ResetPasswordForEmail email (b @ ''/update-password'')) s)) e \<longrightarrow> fst (resetPassword srv (Some b) email (s, log)) =
            Returned (outcome JNull e)"
    proof (rule impI)
    assume "fails_with (fst (srv (ResetPasswordForEmail email (b @ ''/update-password'')) s)) e"
    from single_call_failure [where srv = srv
        and req = "ResetPasswordForEmail email (b @ ''/update-password'')" and s = s and e = e
        and log = log, OF this]
    show "fst (resetPassword srv (Some b) email (s, log)) =
          Returned (outcome JNull e)"
      by (simp add: resetPassword_def)
  qed
  have f7: "fst (resetPassword srv None email (s, log)) =
            Returned (outcome JNull (JError ''ReferenceError'' ''window is not defined''))"
    by (simp add: resetPassword_def catch_all_def)
  have f8: "fails_with (fst (srv (load_request pageName) s)) e
      \<and> get_prop e ''code'' \<noteq> Inr (JStr ''PGRST116'')
        \<longrightarrow> fst (loadPageContent srv pageName (s, log)) =
            Returned (outcome JNull e)"
    by (rule impI, elim conjE)
       (rule loadPageContent_failure [where srv = srv and s = s and e = e])
  have f9: "fails_with (fst (srv (history_request pageName) s)) e
        \<longrightarrow> fst (getPageHistory srv pageName (s, log)) =
            Returned (outcome JNull e)"
    unfolding getPageHistory_def
    by (rule impI)
       (rule single_call_failure [where srv = srv and req = "(history_request pageName)" and s
           = s and e = e])
  have g1: "srv GetUser s = (Resolved (response (JObj [(''user'', user)]) JNull), s1)
      \<and> \<not> truthy user \<longrightarrow>
        fst (savePageContent srv pageName content now (s, log)) =
            Returned (outcome JNull (JError ''Error'' ''Usuario no autenticado''))
      \<and> fst (getUsers srv (s, log)) =
            Returned (outcome JNull (JError ''Error'' ''No autenticado''))
      \<and> fst (updateUserRole srv userId newRole (s, log)) =
            Returned (outcome JNull (JError ''Error'' ''No autenticado''))"
    proof (rule impI, elim conjE)
    assume a: "srv GetUser s
        = (Resolved (response (JObj [(''user'', user)]) JNull), s1)" and b: "\<not> truthy user"
    have v: "fst (verify_admin srv (s, log)) = Inl (JError ''Error'' ''No autenticado'')"
      by (rule verify_admin_no_user [where srv = srv and s = s and user = user and ?s1.0
          = s1, OF a b])
    show "fst (savePageContent srv pageName content now (s, log)) =
          Returned (outcome JNull (JError ''Error'' ''Usuario no autenticado''))
    \<and> fst (getUsers srv (s, log)) =
          Returned (outcome JNull (JError ''Error'' ''No autenticado''))
    \<and> fst (updateUserRole srv userId newRole (s, log)) =
          Returned (outcome JNull (JError ''Error'' ''No autenticado''))"
      using savePageContent_unauthenticated [where srv = srv and s = s and user
          = user and ?s1.0 = s1 and pageName = pageName
          and content = content and now = now and log = log, OF a b]
        admin_refused [OF v]
      by simp
  qed
  have g2: "srv GetUser s = (Resolved (response (JObj [(''user'', user)]) JNull), s1)
      \<and> truthy user \<and> get_prop user ''id'' = Inr uid
        \<and> fails_with (fst (srv (save_request pageName content uid now) s1)) e \<longrightarrow>
        fst (savePageContent srv pageName content now (s, log)) =
            Returned (outcome JNull e)"
    proof (rule impI, elim conjE)
    assume a: "srv GetUser s
        = (Resolved (response (JObj [(''user'', user)]) JNull), s1)" and b: "truthy user" and c: "get_prop user ''id'' = Inr uid"
      and d: "fails_with (fst (srv (save_request pageName content uid now) s1)) e"
    show "fst (savePageContent srv pageName content now (s, log)) =
          Returned (outcome JNull e)"
      by (rule savePageContent_write_failure [where srv = srv and s = s and user = user
            and ?s1.0 = s1 and uid = uid and e = e, OF a b c d])
  qed
  have g3: "srv GetUser s = (Resolved (response (JObj [(''user'', user)]) JNull), s1)
      \<and> truthy user \<and> get_prop user ''id'' = Inr uid
        \<and> fst (srv (role_request uid) s1) = Rejected e \<longrightarrow>
        fst (getUsers srv (s, log)) =
            Returned (outcome JNull e)
      \<and> fst (updateUserRole srv userId newRole (s, log)) =
            Returned (outcome JNull e)"
    proof (rule impI, elim conjE)
    assume a: "srv GetUser s
        = (Resolved (response (JObj [(''user'', user)]) JNull), s1)" and b: "truthy user" and c: "get_prop user ''id'' = Inr uid"
      and d: "fst (srv (role_request uid) s1) = Rejected e"
    have v: "fst (verify_admin srv (s, log)) = Inl e"
      by (rule verify_admin_lookup_rejected [where srv = srv and s = s and user
          = user and ?s1.0 = s1 and uid = uid and e = e,
            OF a b c d])
    show "fst (getUsers srv (s, log)) =
          Returned (outcome JNull e)
    \<and> fst (updateUserRole srv userId newRole (s, log)) =
          Returned (outcome JNull e)"
      using admin_refused [OF v] by simp
  qed
  have g4: "srv GetUser s = (Resolved (response (JObj [(''user'', user)]) JNull), s1)
      \<and> truthy user \<and> get_prop user ''id'' = Inr uid
        \<and> srv (role_request uid) s1 = (Resolved (response profile e1), s2)
        \<and> get_prop profile ''role'' = Inr role
            \<and> role \<noteq> JStr ''admin'' \<longrightarrow>
        fst (getUsers srv (s, log)) =
            Returned (outcome JNull (JError ''Error'' ''No autorizado''))
      \<and> fst (updateUserRole srv userId newRole (s, log)) =
            Returned (outcome JNull (JError ''Error'' ''No autorizado''))"
    proof (rule impI, elim conjE)
    assume a: "srv GetUser s
        = (Resolved (response (JObj [(''user'', user)]) JNull), s1)" and b: "truthy user" and c: "get_prop user ''id'' = Inr uid"
      and d: "srv (role_request uid) s1 = (Resolved (response profile e1), s2)"
      and f: "get_prop profile ''role'' = Inr role" and g: "role \<noteq> JStr ''admin''"
    have v: "fst (verify_admin srv (s, log)) = Inl (JError ''Error'' ''No autorizado'')"
      using f g by (simp add: verify_admin_lookup [where srv = srv and s = s and user
          = user and ?s1.0 = s1 and uid = uid
            and profile = profile and e = e1 and ?s2.0 = s2, OF a b c d] and_then_def)
    show "fst (getUsers srv (s, log)) =
          Returned (outcome JNull (JError ''Error'' ''No autorizado''))
    \<and> fst (updateUserRole srv userId newRole (s, log)) =
          Returned (outcome JNull (JError ''Error'' ''No autorizado''))"
      using admin_refused [OF v] by simp
  qed
  have g5: "srv GetUser s = (Resolved (response (JObj [(''user'', user)]) JNull), s1)
      \<and> truthy user \<and> get_prop user ''id'' = Inr uid
        \<and> srv (role_request uid) s1 = (Resolved (response profile e1), s2)
        \<and> get_prop profile ''role'' = Inr (JStr ''admin'')
        \<and> fails_with (fst (srv users_request s2)) e \<longrightarrow>
        fst (getUsers srv (s, log)) =
            Returned (outcome JNull e)"
    proof (rule impI, elim conjE)
    assume a: "srv GetUser s
        = (Resolved (response (JObj [(''user'', user)]) JNull), s1)" and b: "truthy user" and c: "get_prop user ''id'' = Inr uid"
      and d: "srv (role_request uid) s1 = (Resolved (response profile e1), s2)"
      and f: "get_prop profile ''role'' = Inr (JStr ''admin'')"
      and g: "fails_with (fst (srv users_request s2)) e"
    have v: "verify_admin srv (s, log) = (Inr (), (s2, log @ [GetUser, role_request uid]))"
      using f by (simp add: verify_admin_lookup [where srv = srv and s = s and user
          = user and ?s1.0 = s1 and uid = uid
            and profile = profile and e = e1 and ?s2.0 = s2, OF a b c d] and_then_def)
    show "fst (getUsers srv (s, log)) =
          Returned (outcome JNull e)"
      by (rule admin_query_failure(1) [where srv = srv and s = s and log = log
            and ?s2.0 = s2 and e = e, OF v g])
  qed
  have g6: "srv GetUser s = (Resolved (response (JObj [(''user'', user)]) JNull), s1)
      \<and> truthy user \<and> get_prop user ''id'' = Inr uid
        \<and> srv (role_request uid) s1 = (Resolved (response profile e1), s2)
        \<and> get_prop profile ''role'' = Inr (JStr ''admin'')
        \<and> fails_with (fst (srv (role_update_request userId newRole) s2)) e \<longrightarrow>
        fst (updateUserRole srv userId newRole (s, log)) =
            Returned (outcome JNull e)"
    proof (rule impI, elim conjE)
    assume a: "srv GetUser s
        = (Resolved (response (JObj [(''user'', user)]) JNull), s1)" and b: "truthy user" and c: "get_prop user ''id'' = Inr uid"
      and d: "srv (role_request uid) s1 = (Resolved (response profile e1), s2)"
      and f: "get_prop profile ''role'' = Inr (JStr ''admin'')"
      and g: "fails_with (fst (srv (role_update_request userId newRole) s2)) e"
    have v: "verify_admin srv (s, log) = (Inr (), (s2, log @ [GetUser, role_request uid]))"
      using f by (simp add: verify_admin_lookup [where srv = srv and s = s and user
          = user and ?s1.0 = s1 and uid = uid
            and profile = profile and e = e1 and ?s2.0 = s2, OF a b c d] and_then_def)
    show "fst (updateUserRole srv userId newRole (s, log)) =
          Returned (outcome JNull e)"
      by (rule admin_query_failure(2) [where srv = srv and s = s and log = log
            and ?s2.0 = s2 and e = e, OF v g])
  qed
  show ?thesis
    by (intro conjI) (fact r1 r2 r3 r4 r5 r6 r7 r8 r9 r10 r11 f1 f2 f3 f4 f5 f6 f7 f8 f9 g1 g2 g3 g4 g5 g6)+
qed

theorem failures_are_caught_and_returned_witness:
  "fst (signUp scripted ''ana@example.org'' ''secret'' JUndefined ([Rejected network_error], [])) =
     Returned (outcome JNull network_error)
 \<and> fst (signIn scripted ''ana@example.org'' ''secret'' ([Rejected network_error], [])) =
     Returned (outcome JNull network_error)
 \<and> fst (signOut scripted ([Rejected network_error], [])) =
     Returned (JObj [(''error'', network_error)])
 \<and> fst (getSession scripted ([Rejected network_error], [])) =
     Returned (outcome JNull network_error)
 \<and> fst (getUser scripted ([Rejected network_error], [])) =
     Returned (outcome JNull network_error)
 \<and> fst (resetPassword scripted (Some ''https://app.example.org'') ''ana@example.org''
        ([Rejected network_error], [])) =
     Returned (outcome JNull network_error)
 \<and> fst (loadPageContent scripted ''home'' ([Rejected network_error], [])) =
     Returned (outcome JNull network_error)
 \<and> fst (getPageHistory scripted ''home'' ([Rejected network_error], [])) =
     Returned (outcome JNull network_error)
 \<and> fst (savePageContent scripted ''home'' ''<p>hi</p>'' ''2024-05-01T10:00:00.000Z''
        ([Rejected network_error], [])) =
     Returned (outcome JNull (type_error JNull ''user''))
 \<and> fst (getUsers scripted ([Rejected network_error], [])) =
     Returned (outcome JNull (type_error JNull ''user''))
 \<and> fst (signIn scripted ''ana@example.org'' ''wrong'' ([Resolved (response JNull denied)], [])) =
     Returned (outcome JNull denied)
 \<and> fst (signOut scripted ([Resolved (response JNull denied)], [])) =
     Returned (JObj [(''error'', denied)])
 \<and> fst (savePageContent scripted ''home'' ''<p>hi</p>'' ''2024-05-01T10:00:00.000Z''
        ([null_user_answer], [])) =
     Returned (outcome JNull (JError ''Error'' ''Usuario no autenticado''))
 \<and> fst (updateUserRole scripted ''u123'' ''editor'' ([null_user_answer], [])) =
     Returned (outcome JNull (JError ''Error'' ''No autenticado''))
 \<and> fst (savePageContent scripted ''home'' ''<p>hi</p>'' ''2024-05-01T10:00:00.000Z''
        ([signed_in_answer, Resolved (response JNull denied)], [])) =
     Returned (outcome JNull denied)
 \<and> fst (getUsers scripted ([signed_in_answer, Rejected network_error], [])) =
     Returned (outcome JNull network_error)
 \<and> fst (getUsers scripted ([signed_in_answer, role_answer_of ''user''], [])) =
     Returned (outcome JNull (JError ''Error'' ''No autorizado''))
 \<and> fst (getUsers scripted
        ([signed_in_answer, role_answer_of ''admin'', Resolved (response JNull denied)], [])) =
     Returned (outcome JNull denied)
 \<and> fst (updateUserRole scripted ''u123'' ''editor''
        ([signed_in_answer, role_answer_of ''admin'', Rejected network_error], [])) =
     Returned (outcome JNull network_error)"
proof -
  note ev = scripted_def fails_with_def response_def network_error_def denied_def
    signed_in_answer_def null_user_answer_def role_answer_of_def
  have a: "fst (signUp scripted ''ana@example.org'' ''secret'' JUndefined
        ([Rejected network_error], [])) = Returned (outcome JNull network_error)
    \<and> fst (signIn scripted ''ana@example.org'' ''secret'' ([Rejected network_error], [])) =
        Returned (outcome JNull network_error)
    \<and> fst (signOut scripted ([Rejected network_error], [])) =
        Returned (JObj [(''error'', network_error)])
    \<and> fst (getSession scripted ([Rejected network_error], [])) =
        Returned (outcome JNull network_error)
    \<and> fst (getUser scripted ([Rejected network_error], [])) =
        Returned (outcome JNull network_error)
    \<and> fst (resetPassword scripted (Some ''https://app.example.org'') ''ana@example.org''
        ([Rejected network_error], [])) = Returned (outcome JNull network_error)
    \<and> fst (loadPageContent scripted ''home'' ([Rejected network_error], [])) =
        Returned (outcome JNull network_error)
    \<and> fst (getPageHistory scripted ''home'' ([Rejected network_error], [])) =
        Returned (outcome JNull network_error)
    \<and> fst (savePageContent scripted ''home'' ''<p>hi</p>'' ''2024-05-01T10:00:00.000Z''
        ([Rejected network_error], [])) = Returned (outcome JNull (type_error JNull ''user''))
    \<and> fst (getUsers scripted ([Rejected network_error], [])) =
        Returned (outcome JNull (type_error JNull ''user''))"
    using failures_are_caught_and_returned
      [where srv = scripted and s = "[Rejected network_error]" and e = network_error
         and log = "[]" and email = "''ana@example.org''" and password = "''secret''"
         and userMetadata = JUndefined and b = "''https://app.example.org''"
         and pageName = "''home''" and content = "''<p>hi</p>''"
         and now = "''2024-05-01T10:00:00.000Z''"]
    by (simp add: ev)
  have b: "fst (signIn scripted ''ana@example.org'' ''wrong''
        ([Resolved (response JNull denied)], [])) = Returned (outcome JNull denied)
    \<and> fst (signOut scripted ([Resolved (response JNull denied)], [])) =
        Returned (JObj [(''error'', denied)])"
    using failures_are_caught_and_returned
      [where srv = scripted and s = "[Resolved (response JNull denied)]" and e = denied
         and log = "[]" and email = "''ana@example.org''" and password = "''wrong''"]
    by (simp add: ev)
  have c: "fst (savePageContent scripted ''home'' ''<p>hi</p>'' ''2024-05-01T10:00:00.000Z''
        ([null_user_answer], [])) =
        Returned (outcome JNull (JError ''Error'' ''Usuario no autenticado''))
    \<and> fst (updateUserRole scripted ''u123'' ''editor'' ([null_user_answer], [])) =
        Returned (outcome JNull (JError ''Error'' ''No autenticado''))"
    using failures_are_caught_and_returned
      [where srv = scripted and s = "[null_user_answer]" and user = JNull and ?s1.0 = "[]"
         and log = "[]" and pageName = "''home''" and content = "''<p>hi</p>''"
         and now = "''2024-05-01T10:00:00.000Z''" and userId = "''u123''"
         and newRole = "''editor''"]
    by (simp add: ev)
  have d: "fst (savePageContent scripted ''home'' ''<p>hi</p>'' ''2024-05-01T10:00:00.000Z''
        ([signed_in_answer, Resolved (response JNull denied)], [])) =
        Returned (outcome JNull denied)"
    using failures_are_caught_and_returned
      [where srv = scripted and s = "[signed_in_answer, Resolved (response JNull denied)]"
         and user = "JObj [(''id'', JStr ''u1'')]" and uid = "JStr ''u1''"
         and ?s1.0 = "[Resolved (response JNull denied)]" and e = denied
         and log = "[]" and pageName = "''home''" and content = "''<p>hi</p>''"
         and now = "''2024-05-01T10:00:00.000Z''"]
    by (simp add: ev)
  have e: "fst (getUsers scripted ([signed_in_answer, Rejected network_error], [])) =
        Returned (outcome JNull network_error)"
    using failures_are_caught_and_returned
      [where srv = scripted and s = "[signed_in_answer, Rejected network_error]"
         and user = "JObj [(''id'', JStr ''u1'')]" and uid = "JStr ''u1''"
         and ?s1.0 = "[Rejected network_error]" and e = network_error and log = "[]"]
    by (simp add: ev)
  have f: "fst (getUsers scripted ([signed_in_answer, role_answer_of ''user''], [])) =
        Returned (outcome JNull (JError ''Error'' ''No autorizado''))"
    using failures_are_caught_and_returned
      [where srv = scripted and s = "[signed_in_answer, role_answer_of ''user'']"
         and user = "JObj [(''id'', JStr ''u1'')]" and uid = "JStr ''u1''"
         and ?s1.0 = "[role_answer_of ''user'']" and profile = "JObj [(''role'', JStr ''user'')]"
         and ?e1.0 = JNull and ?s2.0 = "[]" and role = "JStr ''user''" and log = "[]"]
    by (simp add: ev)
  have g: "fst (getUsers scripted
        ([signed_in_answer, role_answer_of ''admin'', Resolved (response JNull denied)], [])) =
        Returned (outcome JNull denied)"
    using failures_are_caught_and_returned
      [where srv = scripted
         and s = "[signed_in_answer, role_answer_of ''admin'', Resolved (response JNull denied)]"
         and user = "JObj [(''id'', JStr ''u1'')]" and uid = "JStr ''u1''"
         and ?s1.0 = "[role_answer_of ''admin'', Resolved (response JNull denied)]"
         and profile = "JObj [(''role'', JStr ''admin'')]" and ?e1.0 = JNull
         and ?s2.0 = "[Resolved (response JNull denied)]" and e = denied and log = "[]"]
    by (simp add: ev)
  have h: "fst (updateUserRole scripted ''u123'' ''editor''
        ([signed_in_answer, role_answer_of ''admin'', Rejected network_error], [])) =
        Returned (outcome JNull network_error)"
    using failures_are_caught_and_returned
      [where srv = scripted
         and s = "[signed_in_answer, role_answer_of ''admin'', Rejected network_error]"
         and user = "JObj [(''id'', JStr ''u1'')]" and uid = "JStr ''u1''"
         and ?s1.0 = "[role_answer_of ''admin'', Rejected network_error]"
         and profile = "JObj [(''role'', JStr ''admin'')]" and ?e1.0 = JNull
         and ?s2.0 = "[Rejected network_error]" and e = network_error and log = "[]"
         and userId = "''u123''" and newRole = "''editor''"]
    by (simp add: ev)
  from a b c d e f g h show ?thesis
    by (intro conjI) simp_all
qed

section \<open>Saving a page twice\<close>

lemma getUser_platform:
  "getUser (platform pd) (s, log) =
     (Returned (outcome (JObj [(''user'', current_user s)]) JNull), (s, log @ [GetUser]))"
  by (simp add: getUser_def call_def platform_def response_def catch_all_def and_then_def
        data_or_throw_def)

lemma savePageContent_platform:
  assumes "truthy (current_user s)" and "get_prop (current_user s) ''id'' = Inr uid"
  shows "savePageContent (platform pd) p c t (s, log) =
     (Returned (outcome JNull JNull),
      (s\<lparr>paginas :=
           run_upsert (JObj [(''nombre'', JStr p), (''contenido_html'', JStr c),
                             (''usuario_id'', uid), (''actualizado_en'', JStr t)])
             ''nombre'' False (paginas s)\<rparr>,
       log @ [GetUser, save_request p c uid t]))"
proof -
  have chk: "and_then (authenticated_user ''Usuario no autenticado''
                 (Returned (outcome (JObj [(''user'', current_user s)]) JNull)))
               (\<lambda>user. get_prop user ''id'') = Inr uid"
    using assms by (simp add: authenticated_user_ok and_then_def)
  have srv: "call (platform pd) (save_request p c uid t) (s, log @ [GetUser]) =
      (Inr (response JNull JNull),
       (s\<lparr>paginas :=
           run_upsert (JObj [(''nombre'', JStr p), (''contenido_html'', JStr c),
                             (''usuario_id'', uid), (''actualizado_en'', JStr t)])
             ''nombre'' False (paginas s)\<rparr>,
        log @ [GetUser, save_request p c uid t]))"
    by (simp add: call_def platform_def save_request_def from_table_def run_query_def
          table_rows_def put_rows_def)
  have ok: "catch_all (and_then (Inr (response JNull JNull)) data_or_throw) =
      Returned (outcome JNull JNull)"
    by (simp add: catch_all_def and_then_def data_or_throw_def response_def)
  show ?thesis
    unfolding savePageContent_def getUser_platform by (simp add: chk srv ok)
qed

lemma loadPageContent_platform:
  "loadPageContent (platform pd) p (s, log) =
     (Returned
        (case filter (\<lambda>r. col r ''nombre'' = JStr p) (paginas s) of
           [r] \<Rightarrow> outcome (JObj [(''contenido_html'', col r ''contenido_html''),
                                (''actualizado_en'', col r ''actualizado_en'')]) JNull
         | _ \<Rightarrow> outcome JNull JNull),
      (s, log @ [load_request p]))"
  by (simp add: loadPageContent_def call_def load_answer response_def no_rows_error_def
        and_then_def catch_all_def outcome_def split: list.splits)

text \<open>On the reference platform a page that has no row loads as no data and no error.\<close>

lemma loadPageContent_absent_page:
  assumes "\<not> list_ex (\<lambda>r. col r ''nombre'' = JStr p) (paginas s)"
  shows "loadPageContent (platform pd) p (s, log) =
     (Returned (outcome JNull JNull), (s, log @ [load_request p]))"
proof -
  from assms have "filter (\<lambda>r. col r ''nombre'' = JStr p) (paginas s) = []"
    by (simp add: list_ex_iff filter_empty_conv)
  then show ?thesis
    by (simp add: loadPageContent_platform)
qed

text \<open>Upsert by a conflict column keeps the column's values distinct.\<close>

lemma col_merge_row:
  "col (merge_row new r) c = (if c \<in> fst ` set new then col new c else col r c)"
proof (cases "map_of new c")
  case None
  then have notin: "c \<notin> fst ` set new"
    by (simp add: map_of_eq_None_iff)
  have "map_of (filter (\<lambda>(k, v). k \<notin> set (map fst new)) r) c = map_of r c"
    using notin by (induction r) (auto simp: image_iff)
  with None notin show ?thesis
    by (simp add: col_def merge_row_def map_add_def)
next
  case (Some v)
  then have "c \<in> fst ` set new"
    by (metis domI dom_map_of_conv_image_fst)
  with Some show ?thesis
    by (simp add: col_def merge_row_def map_add_def)
qed

lemma col_merge_row_key:
  "col r k = col new k \<Longrightarrow> col (merge_row new r) k = col new k"
  by (simp add: col_merge_row)

lemma keys_run_upsert:
  "map (\<lambda>r. col r k) (run_upsert (JObj new) k False rows) =
     (if col new k \<in> (\<lambda>r. col r k) ` set rows then map (\<lambda>r. col r k) rows
      else map (\<lambda>r. col r k) rows @ [col new k])"
proof (cases "list_ex (\<lambda>r. col r k = col new k) rows")
  case True
  then obtain r0 where "r0 \<in> set rows" and "col r0 k = col new k"
    unfolding list_ex_iff by blast
  then have "col new k \<in> (\<lambda>r. col r k) ` set rows"
    by (metis imageI)
  moreover have "map (\<lambda>r. col r k) (run_upsert (JObj new) k False rows) = map (\<lambda>r. col r k) rows"
    using True by (simp add: run_upsert_def col_merge_row_key)
  ultimately show ?thesis by simp
next
  case False
  then have "\<forall>r\<in>set rows. col r k \<noteq> col new k"
    unfolding list_ex_iff by blast
  then have "col new k \<notin> (\<lambda>r. col r k) ` set rows"
    by (metis imageE)
  moreover have "map (\<lambda>r. col r k) (run_upsert (JObj new) k False rows) =
      map (\<lambda>r. col r k) rows @ [col new k]"
    using False by (simp add: run_upsert_def)
  ultimately show ?thesis by simp
qed

lemma distinct_run_upsert:
  "distinct (map (\<lambda>r. col r k) rows) \<Longrightarrow>
   distinct (map (\<lambda>r. col r k) (run_upsert (JObj new) k False rows))"
  by (simp only: keys_run_upsert) (auto)

lemma key_in_run_upsert:
  "col new k \<in> (\<lambda>r. col r k) ` set (run_upsert (JObj new) k False rows)"
proof -
  have "col new k \<in> set (map (\<lambda>r. col r k) (run_upsert (JObj new) k False rows))"
    by (simp only: keys_run_upsert) (auto)
  then show ?thesis by simp
qed

lemma upserted_columns:
  assumes "r \<in> set (run_upsert (JObj new) k False rows)" and "col r k = col new k"
    and "c \<in> fst ` set new"
  shows "col r c = col new c"
proof (cases "list_ex (\<lambda>r. col r k = col new k) rows")
  case True
  with assms(1) obtain r0 where "r0 \<in> set rows"
    and "r = (if col r0 k = col new k then merge_row new r0 else r0)"
    by (auto simp: run_upsert_def)
  with assms(2,3) show ?thesis
    by (cases "col r0 k = col new k") (simp_all add: col_merge_row)
next
  case False
  with assms(1) have "r \<in> set rows \<or> r = new"
    by (auto simp: run_upsert_def)
  with False assms(2) show ?thesis
    by (auto simp: list_ex_iff)
qed

lemma unique_row:
  "distinct (map f xs) \<Longrightarrow> v \<in> f ` set xs \<Longrightarrow> \<exists>r. filter (\<lambda>x. f x = v) xs = [r]"
proof (induction xs)
  case Nil
  then show ?case by simp
next
  case (Cons x xs)
  show ?case
  proof (cases "f x = v")
    case True
    from Cons.prems(1) have "f x \<notin> f ` set xs"
      by simp
    with True have "\<forall>y\<in>set xs. f y \<noteq> v"
      by blast
    then have "filter (\<lambda>x. f x = v) xs = []"
      by (simp add: filter_empty_conv)
    with True show ?thesis by simp
  next
    case False
    with Cons show ?thesis by auto
  qed
qed

text \<open>
  C5: on the reference platform, with a principal signed in and page names unique in
  the store, two saves of the same page name, first with content \<open>c1\<close> and then with
  \<open>c2\<close>, leave exactly one row of that name, whose content is \<open>c2\<close>, and a load
  of the page after them returns \<open>c2\<close> (with the time of the second save).
\<close>

theorem save_twice_then_load:
  assumes auth: "truthy (current_user s)"
    and uniq: "distinct (map (\<lambda>r. col r ''nombre'') (paginas s))"
  shows "map (\<lambda>r. col r ''contenido_html'')
           (filter (\<lambda>r. col r ''nombre'' = JStr pageName)
              (paginas (fst (saved_twice (platform pd) pageName c1 t1 c2 t2 (s, log))))) = [JStr c2]
    \<and> fst (loadPageContent (platform pd) pageName
              (saved_twice (platform pd) pageName c1 t1 c2 t2 (s, log))) =
        Returned (outcome (JObj [(''contenido_html'', JStr c2), (''actualizado_en'', JStr t2)])
                    JNull)"
proof -
  from auth obtain uid where uid: "get_prop (current_user s) ''id'' = Inr uid"
    using truthy_get_prop by blast
  define row1 where "row1 = [(''nombre'', JStr pageName), (''contenido_html'', JStr c1),
                             (''usuario_id'', uid), (''actualizado_en'', JStr t1)]"
  define row2 where "row2 = [(''nombre'', JStr pageName), (''contenido_html'', JStr c2),
                             (''usuario_id'', uid), (''actualizado_en'', JStr t2)]"
  define rows1 where "rows1 = run_upsert (JObj row1) ''nombre'' False (paginas s)"
  define rows2 where "rows2 = run_upsert (JObj row2) ''nombre'' False rows1"
  define log2 where "log2 = (log @ [GetUser, save_request pageName c1 uid t1])
              @ [GetUser, save_request pageName c2 uid t2]"
  have save1: "savePageContent (platform pd) pageName c1 t1 (s, log) =
      (Returned (outcome JNull JNull),
       (s\<lparr>paginas := rows1\<rparr>, log @ [GetUser, save_request pageName c1 uid t1]))"
    unfolding rows1_def row1_def by (rule savePageContent_platform [OF auth uid])
  have auth1: "truthy (current_user (s\<lparr>paginas := rows1\<rparr>))"
    and uid1: "get_prop (current_user (s\<lparr>paginas := rows1\<rparr>)) ''id'' = Inr uid"
    using auth uid by simp_all
  have save2: "savePageContent (platform pd) pageName c2 t2
        (s\<lparr>paginas := rows1\<rparr>, log @ [GetUser, save_request pageName c1 uid t1]) =
      (Returned (outcome JNull JNull), (s\<lparr>paginas := rows2\<rparr>, log2))"
    using savePageContent_platform [OF auth1 uid1, of pd pageName c2 t2
        "log @ [GetUser, save_request pageName c1 uid t1]"]
    by (simp add: rows2_def row2_def log2_def)
  have twice: "saved_twice (platform pd) pageName c1 t1 c2 t2 (s, log) =
      (s\<lparr>paginas := rows2\<rparr>, log2)"
    by (simp add: saved_twice_def save1 save2)
  have key2: "col row2 ''nombre'' = JStr pageName"
    by (simp add: row2_def col_def)
  have d1: "distinct (map (\<lambda>r. col r ''nombre'') rows1)"
    unfolding rows1_def using uniq by (rule distinct_run_upsert)
  have d2: "distinct (map (\<lambda>r. col r ''nombre'') rows2)"
    unfolding rows2_def using d1 by (rule distinct_run_upsert)
  have "JStr pageName \<in> (\<lambda>r. col r ''nombre'') ` set rows2"
    using key_in_run_upsert [of row2 "''nombre''" rows1] by (simp only: rows2_def key2)
  with d2 have "\<exists>r. filter (\<lambda>r. col r ''nombre'' = JStr pageName) rows2 = [r]"
    by (rule unique_row [of "\<lambda>r. col r ''nombre''" rows2 "JStr pageName"])
  then obtain r where r: "filter (\<lambda>r. col r ''nombre'' = JStr pageName) rows2 = [r]" ..
  then have "r \<in> set (filter (\<lambda>r. col r ''nombre'' = JStr pageName) rows2)"
    by simp
  then have mem: "r \<in> set (run_upsert (JObj row2) ''nombre'' False rows1)"
    and named: "col r ''nombre'' = col row2 ''nombre''"
    by (simp_all add: rows2_def key2)
  have in1: "''contenido_html'' \<in> fst ` set row2" and in2: "''actualizado_en'' \<in> fst ` set row2"
    by (simp_all add: row2_def)
  have content: "col r ''contenido_html'' = JStr c2"
    using upserted_columns [OF mem named in1] by (simp add: row2_def col_def)
  have stamp: "col r ''actualizado_en'' = JStr t2"
    using upserted_columns [OF mem named in2] by (simp add: row2_def col_def)
  show ?thesis
    by (simp add: twice loadPageContent_platform r content stamp)
qed

theorem save_twice_then_load_witness:
  "map (\<lambda>r. col r ''contenido_html'')
           (filter (\<lambda>r. col r ''nombre'' = JStr ''home'')
              (paginas (fst (saved_twice (platform offline) ''home'' ''<p>one</p>''
                 ''2024-05-01T10:00:00.000Z'' ''<p>two</p>'' ''2024-05-01T10:05:00.000Z''
                 (example_store, []))))) = [JStr ''<p>two</p>'']
    \<and> fst (loadPageContent (platform offline) ''home''
              (saved_twice (platform offline) ''home'' ''<p>one</p>''
                 ''2024-05-01T10:00:00.000Z'' ''<p>two</p>'' ''2024-05-01T10:05:00.000Z''
                 (example_store, []))) =
        Returned (outcome (JObj [(''contenido_html'', JStr ''<p>two</p>''),
                                 (''actualizado_en'', JStr ''2024-05-01T10:05:00.000Z'')])
                    JNull)"
proof -
  have a: "truthy (current_user example_store)"
    by (simp add: example_store_def)
  have b: "distinct (map (\<lambda>r. col r ''nombre'') (paginas example_store))"
    by (simp add: example_store_def)
  show ?thesis
    by (rule save_twice_then_load [OF a b])
qed

section \<open>The history of a page\<close>

lemma history_answer:
  "platform pd (history_request p) s =
     (Resolved (response
        (JArr (map (\<lambda>r. JObj (project [''contenido_html'', ''actualizado_en'', ''usuario_id''] r))
           (take 10 (rev (sort_key (\<lambda>r. order_key (col r ''actualizado_en''))
              (filter (\<lambda>r. col r ''nombre_pagina'' = JStr p) (pagina_historial s)))))))
        JNull), s)"
  by (simp add: platform_def history_request_def from_table_def limit_rows_def order_by_def
        eq_filter_def run_query_def table_rows_def run_select_def limited_def ordered_def
        matching_single columns_history comp_def)

lemma newest_first:
  "sorted_wrt (\<lambda>a b. f b \<le> f a) (take n (rev (sort_key f xs)))"
proof -
  have "sorted (map f (sort_key f xs))"
    by (rule sorted_sort_key)
  then have "sorted_wrt (\<lambda>a b. f a \<le> f b) (sort_key f xs)"
    by (simp add: sorted_wrt_map)
  then have "sorted_wrt (\<lambda>a b. f b \<le> f a) (rev (sort_key f xs))"
    by (simp add: sorted_wrt_rev)
  then show ?thesis
    by (rule sorted_wrt_take)
qed

text \<open>
  C6: on the reference platform, for every page name and every store,
  \<^verbatim>\<open>getPageHistory\<close> returns a list of at most 10 entries whose timestamps never
  increase from one entry to the next (newest first).
\<close>

theorem getPageHistory_capped_newest_first:
  "\<exists>hs. fst (getPageHistory (platform pd) pageName (s, log)) = Returned (outcome (JArr hs) JNull)
      \<and> length hs \<le> 10
      \<and> sorted_wrt (\<lambda>a b. order_key (field b ''actualizado_en'')
                          \<le> order_key (field a ''actualizado_en'')) hs"
proof -
  define rows where "rows = take 10 (rev (sort_key (\<lambda>r. order_key (col r ''actualizado_en''))
              (filter (\<lambda>r. col r ''nombre_pagina'' = JStr pageName) (pagina_historial s))))"
  define hs where
    "hs = map (\<lambda>r. JObj (project [''contenido_html'', ''actualizado_en'', ''usuario_id''] r)) rows"
  have res: "fst (getPageHistory (platform pd) pageName (s, log)) =
      Returned (outcome (JArr hs) JNull)"
    by (simp add: getPageHistory_def call_def history_answer hs_def rows_def response_def
          catch_all_def and_then_def data_or_throw_def outcome_def)
  have len: "length hs \<le> 10"
    by (simp add: hs_def rows_def)
  have stamp: "field (JObj (project [''contenido_html'', ''actualizado_en'', ''usuario_id''] r))
        ''actualizado_en'' = col r ''actualizado_en''" for r
    by (simp add: project_def)
  have "sorted_wrt (\<lambda>a b. order_key (col b ''actualizado_en'')
                          \<le> order_key (col a ''actualizado_en'')) rows"
    unfolding rows_def by (rule newest_first)
  then have srt: "sorted_wrt (\<lambda>a b. order_key (field b ''actualizado_en'')
                          \<le> order_key (field a ''actualizado_en'')) hs"
    by (simp only: hs_def sorted_wrt_map stamp)
  from res len srt show ?thesis by blast
qed

text \<open>The ten newest of the twelve entries of \<^verbatim>\<open>home\<close>, newest first.\<close>

lemma getPageHistory_of_twelve_entries:
  "map (\<lambda>e. field e ''actualizado_en'')
     (case fst (getPageHistory (platform offline) ''home'' (history_store, [])) of
        Returned out \<Rightarrow> (case field out ''data'' of JArr hs \<Rightarrow> hs | _ \<Rightarrow> [])
      | Thrown e \<Rightarrow> []) =
   map JStr [''2024-01-12'', ''2024-01-11'', ''2024-01-10'', ''2024-01-09'', ''2024-01-08'',
     ''2024-01-07'', ''2024-01-06'', ''2024-01-05'', ''2024-01-04'', ''2024-01-03'']"
  by (simp add: getPageHistory_def call_def history_answer history_store_def entry_def
        response_def catch_all_def and_then_def data_or_throw_def outcome_def col_def project_def)

section \<open>Changing a role\<close>

lemma getUser_answer: 
  "platform pd GetUser s = (Resolved (response (JObj [(''user'', current_user s)]) JNull), s)"
  by (simp add: platform_def)

lemma verify_admin_platform:
  assumes "truthy (current_user s)" and "get_prop (current_user s) ''id'' = Inr uid"
    and "filter (\<lambda>r. col r ''id'' = uid) (profiles s) = [p]"
    and "col p ''role'' = JStr ''admin''"
  shows "verify_admin (platform pd) (s, log) = (Inr (), (s, log @ [GetUser, role_request uid]))"
proof -
  have "platform pd (role_request uid) s =
      (Resolved (response (JObj [(''role'', JStr ''admin'')]) JNull), s)"
    by (simp add: role_answer assms(3,4))
  from verify_admin_lookup [of "platform pd" s "current_user s" s uid
      "JObj [(''role'', JStr ''admin'')]" JNull s log, OF getUser_answer assms(1,2) this]
  show ?thesis by (simp add: and_then_def)
qed

lemma updateUserRole_platform:
  assumes "truthy (current_user s)" and "get_prop (current_user s) ''id'' = Inr uid"
    and "filter (\<lambda>r. col r ''id'' = uid) (profiles s) = [p]"
    and "col p ''role'' = JStr ''admin''"
  shows "updateUserRole (platform pd) userId newRole (s, log) =
     (Returned (outcome JNull JNull),
      (s\<lparr>profiles := map (\<lambda>r. if col r ''id'' = JStr userId
                                 then merge_row [(''role'', JStr newRole)] r else r) (profiles s)\<rparr>,
       log @ [GetUser, role_request uid, role_update_request userId newRole]))"
  unfolding updateUserRole_def verify_admin_platform [OF assms]
  by (simp add: call_def platform_def role_update_request_def from_table_def eq_filter_def
        run_query_def table_rows_def put_rows_def run_update_def matching_single response_def
        catch_all_def and_then_def data_or_throw_def)

text \<open>
  C7: on the reference platform, when the caller is signed in and its profile has the
  role \<^verbatim>\<open>admin\<close>, \<^verbatim>\<open>updateUserRole\<close> succeeds for every text \<open>newRole\<close>, recognised
  as a role or not: the update it sends carries \<open>newRole\<close> as it is, every profile of
  the target user gets exactly that role, and the other profiles keep theirs.
\<close>

theorem updateUserRole_writes_any_role:
  assumes "truthy (current_user s)" and "get_prop (current_user s) ''id'' = Inr uid"
    and "filter (\<lambda>r. col r ''id'' = uid) (profiles s) = [p]"
    and "col p ''role'' = JStr ''admin''"
  shows "fst (updateUserRole (platform pd) userId newRole (s, log)) = Returned (outcome JNull JNull)
    \<and> snd (snd (updateUserRole (platform pd) userId newRole (s, log))) =
        log @ [GetUser, role_request uid, role_update_request userId newRole]
    \<and> map (\<lambda>r. (col r ''id'', col r ''role''))
         (profiles (fst (snd (updateUserRole (platform pd) userId newRole (s, log))))) =
       map (\<lambda>r. (col r ''id'', if col r ''id'' = JStr userId then JStr newRole else col r ''role''))
         (profiles s)"
  by (simp add: updateUserRole_platform [OF assms] col_merge_row) (simp add: col_def)

theorem updateUserRole_writes_any_role_witness:
  "fst (updateUserRole (platform offline) ''u123'' ''editor'' (example_store, [])) =
      Returned (outcome JNull JNull)
   \<and> map (\<lambda>r. (col r ''id'', col r ''role''))
         (profiles (fst (snd (updateUserRole (platform offline) ''u123'' ''editor''
            (example_store, []))))) =
       [(JStr ''u1'', JStr ''admin''), (JStr ''u123'', JStr ''editor'')]"
proof -
  have a: "truthy (current_user example_store)"
    and b: "get_prop (current_user example_store) ''id'' = Inr (JStr ''u1'')"
    by (simp_all add: example_store_def)
  have c: "filter (\<lambda>r. col r ''id'' = JStr ''u1'') (profiles example_store) =
      [[(''id'', JStr ''u1''), (''email'', JStr ''ana@example.org''), (''role'', JStr ''admin''),
        (''created_at'', JStr ''2023-01-01T00:00:00.000Z'')]]"
    by (simp add: example_store_def col_def)
  have d: "col [(''id'', JStr ''u1''), (''email'', JStr ''ana@example.org''),
        (''role'', JStr ''admin''), (''created_at'', JStr ''2023-01-01T00:00:00.000Z'')] ''role'' =
      JStr ''admin''"
    by (simp add: col_def)
  have e: "map (\<lambda>r. (col r ''id'',
          if col r ''id'' = JStr ''u123'' then JStr ''editor'' else col r ''role''))
        (profiles example_store) =
      [(JStr ''u1'', JStr ''admin''), (JStr ''u123'', JStr ''editor'')]"
    by (simp add: example_store_def col_def)
  from updateUserRole_writes_any_role [OF a b c d, of offline "''u123''" "''editor''" "[]"]
  show ?thesis by (simp only: e)
qed

text \<open>
  C10: on the reference platform, when an administrator calls \<^verbatim>\<open>updateUserRole\<close> for a
  user id that no profile has, the operation returns success (\<^verbatim>\<open>error: null\<close>) and the
  store is unchanged: the target is not looked up, and an update of no row is no error.
\<close>

theorem updateUserRole_unknown_target_succeeds:
  assumes "truthy (current_user s)" and "get_prop (current_user s) ''id'' = Inr uid"
    and "filter (\<lambda>r. col r ''id'' = uid) (profiles s) = [p]"
    and "col p ''role'' = JStr ''admin''"
    and "\<not> list_ex (\<lambda>r. col r ''id'' = JStr userId) (profiles s)"
  shows "updateUserRole (platform pd) userId newRole (s, log) =
     (Returned (outcome JNull JNull),
      (s, log @ [GetUser, role_request uid, role_update_request userId newRole]))"
proof -
  from assms(5) have "\<forall>r\<in>set (profiles s). col r ''id'' \<noteq> JStr userId"
    by (simp add: list_ex_iff)
  then have "map (\<lambda>r. if col r ''id'' = JStr userId
                       then merge_row [(''role'', JStr newRole)] r else r) (profiles s) = profiles s"
    by (simp add: map_idI)
  then show ?thesis
    by (simp add: updateUserRole_platform [OF assms(1-4)])
qed

theorem updateUserRole_unknown_target_succeeds_witness:
  "updateUserRole (platform offline) ''nobody'' ''admin'' (example_store, []) =
     (Returned (outcome JNull JNull),
      (example_store,
       [GetUser, role_request (JStr ''u1''), role_update_request ''nobody'' ''admin'']))"
proof -
  have a: "truthy (current_user example_store)"
    and b: "get_prop (current_user example_store) ''id'' = Inr (JStr ''u1'')"
    by (simp_all add: example_store_def)
  have c: "filter (\<lambda>r. col r ''id'' = JStr ''u1'') (profiles example_store) =
      [[(''id'', JStr ''u1''), (''email'', JStr ''ana@example.org''), (''role'', JStr ''admin''),
        (''created_at'', JStr ''2023-01-01T00:00:00.000Z'')]]"
    by (simp add: example_store_def col_def)
  have d: "col [(''id'', JStr ''u1''), (''email'', JStr ''ana@example.org''),
        (''role'', JStr ''admin''), (''created_at'', JStr ''2023-01-01T00:00:00.000Z'')] ''role'' =
      JStr ''admin''"
    by (simp add: col_def)
  have e: "\<not> list_ex (\<lambda>r. col r ''id'' = JStr ''nobody'') (profiles example_store)"
    by (simp add: example_store_def col_def)
  from updateUserRole_unknown_target_succeeds [OF a b c d e, of offline "''admin''" "[]"]
  show ?thesis by simp
qed

end
